theory Spec2Isabelle
  imports Main "HOL-Library.AList"
begin

section \<open>JavaScript values and errors\<close>

text \<open>
  The values that cross the bus are plain JavaScript values. Numbers are restricted to
  the integers and NaN (a fractional number is truthy, like every non-zero integer).
  An object is its list of own properties; reading a property that is not there gives
  \<open>undefined\<close>.
\<close>

datatype jsval =
    JUndefined
  | JNull
  | JBool bool
  | JNum int
  | JNaN
  | JStr string
  | JArr "jsval list"
  | JObj "(string \<times> jsval) list"

text \<open>
  The code throws plain \<open>Error\<close> objects that differ in their message only. Each message
  is a constructor: \<open>NotConnectedError\<close> is 'Not connected to RabbitMQ',
  \<open>PublishRejectedError\<close> is 'Failed to publish message', \<open>ReconnectExhaustedError\<close> is
  'Failed to reconnect to RabbitMQ after maximum retries', \<open>SchemaValidationError\<close> is
  'Invalid event format'. \<open>TypeError\<close> is what the runtime throws for a property read
  on \<open>null\<close> or \<open>undefined\<close>; \<open>LibError\<close> is anything thrown by amqplib, by JSON or by
  a message handler.
\<close>

datatype error =
    NotConnectedError
  | PublishRejectedError
  | ReconnectExhaustedError
  | SchemaValidationError
  | TypeError
  | LibError string

text \<open>JavaScript truthiness: what \<open>!x\<close> and \<open>x || y\<close> test.\<close>

fun truthy :: "jsval \<Rightarrow> bool" where
  "truthy JUndefined = False"
| "truthy JNull = False"
| "truthy (JBool b) = b"
| "truthy (JNum n) = (n \<noteq> 0)"
| "truthy JNaN = False"
| "truthy (JStr s) = (s \<noteq> [])"
| "truthy (JArr xs) = True"
| "truthy (JObj kvs) = True"

text \<open>
  \<open>v.k\<close> for a value that is neither \<open>null\<close> nor \<open>undefined\<close>, and for the property
  names the envelope uses (none of them is a property of a string, a number or an
  array).
\<close>

fun getProp :: "jsval \<Rightarrow> string \<Rightarrow> jsval" where
  "getProp (JObj kvs) k = (case map_of kvs k of None \<Rightarrow> JUndefined | Some v \<Rightarrow> v)"
| "getProp v k = JUndefined"

section \<open>shared/events: constants and the event envelope\<close>

definition QUEUES_USER_EVENTS :: string where
  "QUEUES_USER_EVENTS = ''user.events''"

definition QUEUES_EMAIL_REQUESTS :: string where
  "QUEUES_EMAIL_REQUESTS = ''email.requests''"

definition QUEUES_EMAIL_RESPONSES :: string where
  "QUEUES_EMAIL_RESPONSES = ''email.responses''"

definition EXCHANGES_USER_EVENTS :: string where
  "EXCHANGES_USER_EVENTS = ''user.events.exchange''"

definition EXCHANGES_EMAIL_EVENTS :: string where
  "EXCHANGES_EMAIL_EVENTS = ''email.events.exchange''"

definition ROUTING_KEYS_USER_REGISTERED :: string where
  "ROUTING_KEYS_USER_REGISTERED = ''user.registered''"

text \<open>
  The constructor of \<open>BaseEvent\<close> reads the clock and the random generator. Both are
  inputs of the model: \<open>nowISO\<close> is \<open>new Date().toISOString()\<close>, \<open>nowMillis\<close> is the
  decimal text of \<open>Date.now()\<close>, \<open>random36\<close> is \<open>Math.random().toString(36)\<close>.
\<close>

record clock =
  nowISO :: string
  nowMillis :: string
  random36 :: string

record BaseEvent =
  ev_type :: jsval
  ev_data :: jsval
  timestamp :: jsval
  correlationId :: jsval
  version :: jsval

text \<open>\<open>generateId\<close>: the milliseconds, a dash, and nine characters from index 2.\<close>

definition generateId :: "clock \<Rightarrow> string" where
  "generateId clk = nowMillis clk @ ''-'' @ take 9 (drop 2 (random36 clk))"

text \<open>
  \<open>new BaseEvent(type, data, correlationId)\<close>. A caller that gives no correlation id
  passes \<open>JNull\<close>, the default of the parameter.
\<close>

definition new_BaseEvent :: "clock \<Rightarrow> jsval \<Rightarrow> jsval \<Rightarrow> jsval \<Rightarrow> BaseEvent" where
  "new_BaseEvent clk ty d cid =
     \<lparr> ev_type = ty,
       ev_data = d,
       timestamp = JStr (nowISO clk),
       correlationId = (if truthy cid then cid else JStr (generateId clk)),
       version = JStr ''1.0'' \<rparr>"

definition toJSON :: "BaseEvent \<Rightarrow> jsval" where
  "toJSON e =
     JObj [(''type'', ev_type e),
           (''data'', ev_data e),
           (''timestamp'', timestamp e),
           (''correlationId'', correlationId e),
           (''version'', version e)]"

text \<open>
  \<open>BaseEvent.fromJSON(json)\<close>: builds an event from the three constructor fields, then
  overwrites timestamp and version. Reading a field of \<open>null\<close> or \<open>undefined\<close> throws;
  nothing else does.
\<close>

definition fromJSON :: "clock \<Rightarrow> jsval \<Rightarrow> error + BaseEvent" where
  "fromJSON clk json =
     (if json = JNull \<or> json = JUndefined then Inl TypeError
      else
        let event = new_BaseEvent clk (getProp json ''type'') (getProp json ''data'')
                      (getProp json ''correlationId'')
        in Inr (event \<lparr> timestamp := getProp json ''timestamp'',
                        version := getProp json ''version'' \<rparr>))"

text \<open>\<open>EventUtils.validateEvent(event)\<close>.\<close>

definition validateEvent :: "BaseEvent \<Rightarrow> error + bool" where
  "validateEvent event =
     (if \<not> truthy (ev_type event) \<or> \<not> truthy (ev_data event) \<or> \<not> truthy (timestamp event)
      then Inl SchemaValidationError
      else Inr True)"

section \<open>rabbitmq-setup: the broker client\<close>

subsection \<open>What the client asks of amqplib\<close>

text \<open>
  \<open>msg\<close>, as amqplib hands it to a consumer: the payload and the fields of the delivery.
\<close>

record delivery =
  content :: string
  deliveryTag :: nat
  redelivered :: bool

text \<open>
  An options object is its list of properties; \<open>{...base, ...options}\<close> copies the
  properties of \<open>options\<close> over those of \<open>base\<close>.
\<close>

type_synonym options = "(string \<times> jsval) list"

definition spread :: "options \<Rightarrow> options \<Rightarrow> options" where
  "spread base opts = foldl (\<lambda>al (k, v). AList.update k v al) base opts"

text \<open>
  Every call the client makes on the library is recorded, in order. A declaration is
  \<open>assertExchange(name, type, {durable})\<close>, \<open>assertQueue(name, {durable})\<close> or
  \<open>bindQueue(queue, exchange, pattern)\<close>; \<open>Nack tag allUpTo requeue\<close> is
  \<open>channel.nack(msg, allUpTo, requeue)\<close>; \<open>Sleep\<close> is the timer between two connection
  attempts. Connections and channels are handles.
\<close>

datatype decl =
    AssertExchange string string bool
  | AssertQueue string bool
  | BindQueue string string string

datatype chan_op =
    Declare decl
  | Publish string string string options
  | Consume string options
  | Ack nat
  | Nack nat bool bool
  | CloseChannel

datatype io_op =
    AmqpConnect string
  | CreateChannel nat
  | OnChannel nat chan_op
  | CloseConnection nat
  | Sleep int

text \<open>
  The library and the broker behind it are a parameter: a state \<open>'w\<close> of the world
  outside the process and, for each call, its answer and the next state. The calls that
  return a promise may reject (\<open>Inl\<close>). \<open>channel.publish\<close>, \<open>channel.ack\<close> and
  \<open>channel.nack\<close> return no promise: they write a frame on the channel and return
  (\<open>publish\<close> with the boolean of its write buffer), or throw (\<open>Inl\<close>), as amqplib does
  on a channel that is closed. \<open>lib_emitted\<close> gives, for a call and the world it is made
  in, the connections that emit \<open>error\<close> or \<open>close\<close> while the call is pending.
\<close>

record 'w amqplib =
  lib_connect :: "string \<Rightarrow> 'w \<Rightarrow> (error + nat) \<times> 'w"
  lib_createChannel :: "nat \<Rightarrow> 'w \<Rightarrow> (error + nat) \<times> 'w"
  lib_declare :: "nat \<Rightarrow> decl \<Rightarrow> 'w \<Rightarrow> (error + unit) \<times> 'w"
  lib_publish ::
    "nat \<Rightarrow> string \<Rightarrow> string \<Rightarrow> string \<Rightarrow> options \<Rightarrow> 'w \<Rightarrow> (error + bool) \<times> 'w"
  lib_consume :: "nat \<Rightarrow> string \<Rightarrow> options \<Rightarrow> 'w \<Rightarrow> (error + unit) \<times> 'w"
  lib_ack :: "nat \<Rightarrow> delivery \<Rightarrow> 'w \<Rightarrow> (error + unit) \<times> 'w"
  lib_nack :: "nat \<Rightarrow> delivery \<Rightarrow> bool \<Rightarrow> bool \<Rightarrow> 'w \<Rightarrow> (error + unit) \<times> 'w"
  lib_closeChannel :: "nat \<Rightarrow> 'w \<Rightarrow> (error + unit) \<times> 'w"
  lib_closeConnection :: "nat \<Rightarrow> 'w \<Rightarrow> (error + unit) \<times> 'w"
  lib_sleep :: "int \<Rightarrow> 'w \<Rightarrow> 'w"
  lib_emitted :: "io_op \<Rightarrow> 'w \<Rightarrow> nat list"

subsection \<open>The manager\<close>

record RabbitMQManager =
  url :: string
  connection :: "nat option"
  channel :: "nat option"
  isConnected :: bool

definition new_RabbitMQManager :: "string \<Rightarrow> RabbitMQManager" where
  "new_RabbitMQManager u = \<lparr> url = u, connection = None, channel = None, isConnected = False \<rparr>"

text \<open>
  A run threads the manager (\<open>this\<close>), the world, the calls made so far and the
  connections on which \<open>connect\<close> has registered its two listeners.
\<close>

record 'w state =
  mgr :: RabbitMQManager
  world :: 'w
  trace :: "io_op list"
  listening :: "nat list"

definition io :: "io_op \<Rightarrow> ('w \<Rightarrow> 'r \<times> 'w) \<Rightarrow> 'w state \<Rightarrow> 'r \<times> 'w state" where
  "io op f s = (case f (world s) of (r, w) \<Rightarrow> (r, s \<lparr> world := w, trace := trace s @ [op] \<rparr>))"

text \<open>
  The listeners \<open>connect\<close> registers on the connection, for \<open>error\<close> and for \<open>close\<close>:
  both clear the flag. An awaited call gives the event loop its turn: the events that
  connections emit while it is pending reach the listeners before the call's promise
  settles.
\<close>

definition on_connection_event :: "'w state \<Rightarrow> 'w state" where
  "on_connection_event s = s \<lparr> mgr := (mgr s) \<lparr> isConnected := False \<rparr> \<rparr>"

definition deliver :: "nat list \<Rightarrow> 'w state \<Rightarrow> 'w state" where
  "deliver cs s = (if list_ex (\<lambda>c. c \<in> set (listening s)) cs then on_connection_event s else s)"

definition await ::
  "'w amqplib \<Rightarrow> io_op \<Rightarrow> ('w \<Rightarrow> 'r \<times> 'w) \<Rightarrow> 'w state \<Rightarrow> 'r \<times> 'w state" where
  "await lib op f s =
     (case io op f s of (r, s') \<Rightarrow> (r, deliver (lib_emitted lib op (world s)) s'))"

text \<open>
  \<open>setupExchangesAndQueues\<close>: seven awaited declarations, one after the other; the first
  that rejects ends the method with its error (the \<open>catch\<close> logs and rethrows).
\<close>

definition topology :: "decl list" where
  "topology =
     [AssertExchange EXCHANGES_USER_EVENTS ''topic'' True,
      AssertExchange EXCHANGES_EMAIL_EVENTS ''topic'' True,
      AssertQueue QUEUES_USER_EVENTS True,
      AssertQueue QUEUES_EMAIL_REQUESTS True,
      AssertQueue QUEUES_EMAIL_RESPONSES True,
      BindQueue QUEUES_EMAIL_REQUESTS EXCHANGES_USER_EVENTS ROUTING_KEYS_USER_REGISTERED,
      BindQueue QUEUES_EMAIL_RESPONSES EXCHANGES_EMAIL_EVENTS ''email.*'']"

fun declareAll ::
  "'w amqplib \<Rightarrow> nat \<Rightarrow> decl list \<Rightarrow> 'w state \<Rightarrow> (error + unit) \<times> 'w state" where
  "declareAll lib ch [] s = (Inr (), s)"
| "declareAll lib ch (d # ds) s =
     (case await lib (OnChannel ch (Declare d)) (lib_declare lib ch d) s of
        (Inl e, s') \<Rightarrow> (Inl e, s')
      | (Inr u, s') \<Rightarrow> declareAll lib ch ds s')"

definition setupExchangesAndQueues :: "'w amqplib \<Rightarrow> 'w state \<Rightarrow> (error + unit) \<times> 'w state" where
  "setupExchangesAndQueues lib s =
     (case channel (mgr s) of
        None \<Rightarrow> (Inl TypeError, s)
      | Some ch \<Rightarrow> declareAll lib ch topology s)"

text \<open>
  \<open>connect\<close>: the connection, then the channel, then the two listeners on the
  connection and \<open>isConnected = true\<close>, then the topology. Whatever rejects is logged and
  rethrown; the fields assigned before stay assigned, and so does what a listener has
  done to the flag meanwhile.
\<close>

definition connect :: "'w amqplib \<Rightarrow> 'w state \<Rightarrow> (error + nat option) \<times> 'w state" where
  "connect lib s =
     (case await lib (AmqpConnect (url (mgr s))) (lib_connect lib (url (mgr s))) s of
        (Inl e, s1) \<Rightarrow> (Inl e, s1)
      | (Inr c, s1) \<Rightarrow>
          (let s2 = s1 \<lparr> mgr := (mgr s1) \<lparr> connection := Some c \<rparr> \<rparr> in
           case await lib (CreateChannel c) (lib_createChannel lib c) s2 of
             (Inl e, s3) \<Rightarrow> (Inl e, s3)
           | (Inr ch, s3) \<Rightarrow>
               (let s4 = s3 \<lparr> mgr := (mgr s3) \<lparr> channel := Some ch, isConnected := True \<rparr>,
                              listening := c # listening s3 \<rparr> in
                case setupExchangesAndQueues lib s4 of
                  (Inl e, s5) \<Rightarrow> (Inl e, s5)
                | (Inr u, s5) \<Rightarrow> (Inr (channel (mgr s5)), s5))))"

text \<open>
  \<open>publishMessage(exchange, routingKey, message, options)\<close>. \<open>now\<close> is \<open>Date.now()\<close> and
  \<open>stringify\<close> is \<open>JSON.stringify\<close> followed by \<open>Buffer.from\<close>, which throws for a
  value that has no JSON text.
\<close>

definition publishOptions :: "int \<Rightarrow> options \<Rightarrow> options" where
  "publishOptions now opts = spread [(''persistent'', JBool True), (''timestamp'', JNum now)] opts"

definition publishMessage ::
  "'w amqplib \<Rightarrow> (jsval \<Rightarrow> error + string) \<Rightarrow> int \<Rightarrow> string \<Rightarrow> string \<Rightarrow> jsval \<Rightarrow> options \<Rightarrow>
   'w state \<Rightarrow> (error + bool) \<times> 'w state" where
  "publishMessage lib stringify now exchange routingKey message opts s =
     (if \<not> isConnected (mgr s) then (Inl NotConnectedError, s)
      else
        case stringify message of
          Inl e \<Rightarrow> (Inl e, s)
        | Inr messageBuffer \<Rightarrow>
            (case channel (mgr s) of
               None \<Rightarrow> (Inl TypeError, s)
             | Some ch \<Rightarrow>
                 (case io (OnChannel ch (Publish exchange routingKey messageBuffer (publishOptions now opts)))
                         (lib_publish lib ch exchange routingKey messageBuffer (publishOptions now opts)) s of
                    (Inl e, s') \<Rightarrow> (Inl e, s')
                  | (Inr published, s') \<Rightarrow>
                      if published then (Inr True, s') else (Inl PublishRejectedError, s'))))"

text \<open>
  \<open>consumeMessages(queue, callback, options)\<close> registers the consumer; the function it
  registers is \<open>onMessage\<close> below.
\<close>

definition consumeOptions :: "options \<Rightarrow> options" where
  "consumeOptions opts = spread [(''noAck'', JBool False)] opts"

definition consumeMessages ::
  "'w amqplib \<Rightarrow> string \<Rightarrow> options \<Rightarrow> 'w state \<Rightarrow> (error + unit) \<times> 'w state" where
  "consumeMessages lib queue opts s =
     (if \<not> isConnected (mgr s) then (Inl NotConnectedError, s)
      else
        case channel (mgr s) of
          None \<Rightarrow> (Inl TypeError, s)
        | Some ch \<Rightarrow>
            await lib (OnChannel ch (Consume queue (consumeOptions opts)))
               (lib_consume lib ch queue (consumeOptions opts)) s)"

text \<open>
  The consumer function, run for every delivery (\<open>msg\<close> is \<open>null\<close> when the broker
  cancels the consumer). The \<open>try\<close> block parses the payload, awaits the handler and
  acknowledges; the \<open>catch\<close> block rejects with \<open>nack(msg, false, true)\<close>, and what
  that call throws leaves the function. The handler is any function of the parsed
  content, the delivery and the run: what happens to the run while the handler is
  awaited (a connection lost, a \<open>close\<close> on shutdown) is part of it.
\<close>

type_synonym 'w handler = "jsval \<Rightarrow> delivery \<Rightarrow> 'w state \<Rightarrow> (error + unit) \<times> 'w state"

definition channel_ack :: "'w amqplib \<Rightarrow> delivery \<Rightarrow> 'w state \<Rightarrow> (error + unit) \<times> 'w state" where
  "channel_ack lib msg s =
     (case channel (mgr s) of
        None \<Rightarrow> (Inl TypeError, s)
      | Some ch \<Rightarrow>
          io (OnChannel ch (Ack (deliveryTag msg))) (lib_ack lib ch msg) s)"

definition channel_nack ::
  "'w amqplib \<Rightarrow> delivery \<Rightarrow> bool \<Rightarrow> bool \<Rightarrow> 'w state \<Rightarrow> (error + unit) \<times> 'w state" where
  "channel_nack lib msg allUpTo requeue s =
     (case channel (mgr s) of
        None \<Rightarrow> (Inl TypeError, s)
      | Some ch \<Rightarrow>
          io (OnChannel ch (Nack (deliveryTag msg) allUpTo requeue))
             (lib_nack lib ch msg allUpTo requeue) s)"

definition onMessage_try ::
  "'w amqplib \<Rightarrow> (string \<Rightarrow> error + jsval) \<Rightarrow> 'w handler \<Rightarrow> delivery \<Rightarrow> 'w state \<Rightarrow>
   (error + unit) \<times> 'w state" where
  "onMessage_try lib parse callback msg s =
     (case parse (content msg) of
        Inl e \<Rightarrow> (Inl e, s)
      | Inr c \<Rightarrow>
          (case callback c msg s of
             (Inl e, s1) \<Rightarrow> (Inl e, s1)
           | (Inr u, s1) \<Rightarrow> channel_ack lib msg s1))"

definition onMessage ::
  "'w amqplib \<Rightarrow> (string \<Rightarrow> error + jsval) \<Rightarrow> 'w handler \<Rightarrow> delivery option \<Rightarrow> 'w state \<Rightarrow>
   (error + unit) \<times> 'w state" where
  "onMessage lib parse callback msg s =
     (case msg of
        None \<Rightarrow> (Inr (), s)
      | Some m \<Rightarrow>
          (case onMessage_try lib parse callback m s of
             (Inr u, s1) \<Rightarrow> (Inr (), s1)
           | (Inl e, s1) \<Rightarrow> channel_nack lib m False True s1))"

text \<open>
  \<open>close\<close>: inside one \<open>try\<close>, the channel if there is one, the connection if there is
  one, then \<open>isConnected = false\<close>. The \<open>catch\<close> logs the error and returns.
\<close>

definition close_try :: "'w amqplib \<Rightarrow> 'w state \<Rightarrow> (error + unit) \<times> 'w state" where
  "close_try lib s =
     (case (case channel (mgr s) of
              None \<Rightarrow> (Inr (), s)
            | Some ch \<Rightarrow> await lib (OnChannel ch CloseChannel) (lib_closeChannel lib ch) s) of
        (Inl e, s1) \<Rightarrow> (Inl e, s1)
      | (Inr u, s1) \<Rightarrow>
          (case (case connection (mgr s1) of
                   None \<Rightarrow> (Inr (), s1)
                 | Some c \<Rightarrow> await lib (CloseConnection c) (lib_closeConnection lib c) s1) of
             (Inl e, s2) \<Rightarrow> (Inl e, s2)
           | (Inr u, s2) \<Rightarrow> (Inr (), s2 \<lparr> mgr := (mgr s2) \<lparr> isConnected := False \<rparr> \<rparr>)))"

definition close :: "'w amqplib \<Rightarrow> 'w state \<Rightarrow> (error + unit) \<times> 'w state" where
  "close lib s = (case close_try lib s of (r, s') \<Rightarrow> (Inr (), s'))"

text \<open>
  \<open>reconnect(maxRetries, delay)\<close>: the loop runs while \<open>retries < maxRetries\<close> and the
  manager is not connected. A successful \<open>connect\<close> returns \<open>true\<close>; a failed one counts
  and, unless it was the last, waits for the timer. Leaving the loop throws.
\<close>

definition sleep :: "'w amqplib \<Rightarrow> int \<Rightarrow> 'w state \<Rightarrow> 'w state" where
  "sleep lib delay s = snd (await lib (Sleep delay) (\<lambda>w. ((), lib_sleep lib delay w)) s)"

function reconnect_loop ::
  "'w amqplib \<Rightarrow> int \<Rightarrow> int \<Rightarrow> int \<Rightarrow> 'w state \<Rightarrow> (error + bool) \<times> 'w state" where
  "reconnect_loop lib maxRetries delay retries s =
     (if retries < maxRetries \<and> \<not> isConnected (mgr s) then
        (case connect lib s of
           (Inr ch, s1) \<Rightarrow> (Inr True, s1)
         | (Inl e, s1) \<Rightarrow>
             reconnect_loop lib maxRetries delay (retries + 1)
               (if retries + 1 < maxRetries then sleep lib delay s1 else s1))
      else (Inl ReconnectExhaustedError, s))"
  by pat_completeness auto
termination
  by (relation "measure (\<lambda>(lib, maxRetries, delay, retries, s). nat (maxRetries - retries))") auto

declare reconnect_loop.simps [simp del]

definition reconnect :: "'w amqplib \<Rightarrow> int \<Rightarrow> int \<Rightarrow> 'w state \<Rightarrow> (error + bool) \<times> 'w state" where
  "reconnect lib maxRetries delay s = reconnect_loop lib maxRetries delay 0 s"

subsection \<open>Reading a run\<close>

text \<open>
  The connection attempts and the waits of a run, in order, and the run of a
  \<open>reconnect\<close> that tries \<open>n\<close> times in vain: \<open>n\<close> attempts with one wait of the same
  delay between two of them.
\<close>

fun is_attempt :: "io_op \<Rightarrow> bool" where
  "is_attempt (AmqpConnect u) = True"
| "is_attempt op = False"

fun is_sleep :: "io_op \<Rightarrow> bool" where
  "is_sleep (Sleep d) = True"
| "is_sleep op = False"

definition schedule :: "io_op list \<Rightarrow> io_op list" where
  "schedule ops = filter (\<lambda>op. is_attempt op \<or> is_sleep op) ops"

fun retry_schedule :: "string \<Rightarrow> int \<Rightarrow> nat \<Rightarrow> io_op list" where
  "retry_schedule u d 0 = []"
| "retry_schedule u d (Suc 0) = [AmqpConnect u]"
| "retry_schedule u d (Suc (Suc n)) = AmqpConnect u # Sleep d # retry_schedule u d (Suc n)"

text \<open>Calling \<open>setupExchangesAndQueues\<close> \<open>n\<close> times in a row, stopping at the first error.\<close>

fun setup_times :: "'w amqplib \<Rightarrow> nat \<Rightarrow> 'w state \<Rightarrow> (error + unit) \<times> 'w state" where
  "setup_times lib 0 s = (Inr (), s)"
| "setup_times lib (Suc n) s =
     (case setupExchangesAndQueues lib s of
        (Inl e, s') \<Rightarrow> (Inl e, s')
      | (Inr u, s') \<Rightarrow> setup_times lib n s')"

section \<open>A reference broker\<close>

text \<open>
  The broker is not part of the repository. This one keeps what the client can observe
  of it: whether it is reachable, whether the connection and the channel are open,
  whether the channel's write buffer takes a frame, and the exchanges, queues and
  bindings it holds. Declaring what is already there with the same configuration
  changes nothing; declaring it with another configuration, or binding an endpoint that
  does not exist, is refused, as AMQP 0-9-1 has it. A refusal closes the channel; the
  client puts no listener on the channel, so with amqplib the channel's error takes the
  connection down, which emits \<open>error\<close> and \<open>close\<close>. Consuming from a queue that does
  not exist is refused the same way. Closing the connection makes it emit \<open>close\<close>. On
  a closed channel every call fails. The broker hands out one connection and one
  channel, both with the handle 1.
\<close>

record broker =
  reachable :: bool
  connOpen :: bool
  chanOpen :: bool
  writable :: bool
  exchanges :: "string \<rightharpoonup> string \<times> bool"
  queues :: "string \<rightharpoonup> bool"
  bindings :: "(string \<times> string \<times> string) set"

fun broker_apply :: "decl \<Rightarrow> broker \<Rightarrow> (error + unit) \<times> broker" where
  "broker_apply (AssertExchange n ty dur) b =
     (case exchanges b n of
        None \<Rightarrow> (Inr (), b \<lparr> exchanges := (exchanges b)(n \<mapsto> (ty, dur)) \<rparr>)
      | Some cfg \<Rightarrow>
          if cfg = (ty, dur) then (Inr (), b)
          else (Inl (LibError ''PRECONDITION_FAILED''), b \<lparr> chanOpen := False, connOpen := False \<rparr>))"
| "broker_apply (AssertQueue n dur) b =
     (case queues b n of
        None \<Rightarrow> (Inr (), b \<lparr> queues := (queues b)(n \<mapsto> dur) \<rparr>)
      | Some cfg \<Rightarrow>
          if cfg = dur then (Inr (), b)
          else (Inl (LibError ''PRECONDITION_FAILED''), b \<lparr> chanOpen := False, connOpen := False \<rparr>))"
| "broker_apply (BindQueue q x pat) b =
     (if queues b q = None \<or> exchanges b x = None
      then (Inl (LibError ''NOT_FOUND''), b \<lparr> chanOpen := False, connOpen := False \<rparr>)
      else (Inr (), b \<lparr> bindings := insert (q, x, pat) (bindings b) \<rparr>))"

definition broker_declare :: "decl \<Rightarrow> broker \<Rightarrow> (error + unit) \<times> broker" where
  "broker_declare d b =
     (if chanOpen b then broker_apply d b else (Inl (LibError ''Channel closed''), b))"

definition refused :: "decl \<Rightarrow> broker \<Rightarrow> bool" where
  "refused d b = (case fst (broker_apply d b) of Inl e \<Rightarrow> True | Inr u \<Rightarrow> False)"

fun broker_emitted :: "io_op \<Rightarrow> broker \<Rightarrow> nat list" where
  "broker_emitted (OnChannel ch (Declare d)) b = (if chanOpen b \<and> refused d b then [1] else [])"
| "broker_emitted (OnChannel ch (Consume q opts)) b =
     (if chanOpen b \<and> queues b q = None then [1] else [])"
| "broker_emitted (CloseConnection c) b = (if connOpen b then [1] else [])"
| "broker_emitted op b = []"

definition rabbit :: "broker amqplib" where
  "rabbit =
     \<lparr> lib_connect = (\<lambda>u b.
         if reachable b then (Inr 1, b \<lparr> connOpen := True \<rparr>)
         else (Inl (LibError ''ECONNREFUSED''), b)),
       lib_createChannel = (\<lambda>c b.
         if connOpen b then (Inr 1, b \<lparr> chanOpen := True \<rparr>)
         else (Inl (LibError ''Connection closed''), b)),
       lib_declare = (\<lambda>ch. broker_declare),
       lib_publish = (\<lambda>ch x rk payload opts b.
         if chanOpen b then (Inr (writable b), b) else (Inl (LibError ''Channel closed''), b)),
       lib_consume = (\<lambda>ch q opts b.
         if \<not> chanOpen b then (Inl (LibError ''Channel closed''), b)
         else if queues b q = None
           then (Inl (LibError ''NOT_FOUND''), b \<lparr> chanOpen := False, connOpen := False \<rparr>)
         else (Inr (), b)),
       lib_ack = (\<lambda>ch m b.
         if chanOpen b then (Inr (), b) else (Inl (LibError ''Channel closed''), b)),
       lib_nack = (\<lambda>ch m allUpTo requeue b.
         if chanOpen b then (Inr (), b) else (Inl (LibError ''Channel closed''), b)),
       lib_closeChannel = (\<lambda>ch b.
         if chanOpen b then (Inr (), b \<lparr> chanOpen := False \<rparr>)
         else (Inl (LibError ''Channel closed''), b)),
       lib_closeConnection = (\<lambda>c b.
         if connOpen b then (Inr (), b \<lparr> connOpen := False, chanOpen := False \<rparr>)
         else (Inl (LibError ''Connection closed''), b)),
       lib_sleep = (\<lambda>d b. b),
       lib_emitted = broker_emitted \<rparr>"

text \<open>A broker that holds nothing yet, and a manager that has never connected.\<close>

definition fresh_broker :: broker where
  "fresh_broker =
     \<lparr> reachable = True, connOpen = False, chanOpen = False, writable = True,
       exchanges = Map.empty, queues = Map.empty, bindings = {} \<rparr>"

definition start :: "'w \<Rightarrow> 'w state" where
  "start w =
     \<lparr> mgr = new_RabbitMQManager ''amqp://localhost'', world = w, trace = [], listening = [] \<rparr>"

text \<open>JSON, for the runs below, is the text of the empty object and nothing else.\<close>

definition parse_empty_object :: "string \<Rightarrow> error + jsval" where
  "parse_empty_object txt = (if txt = ''{}'' then Inr (JObj []) else Inl (LibError ''SyntaxError''))"

definition stringify_empty_object :: "jsval \<Rightarrow> error + string" where
  "stringify_empty_object v = (if v = JObj [] then Inr ''{}'' else Inl TypeError)"

text \<open>
  No exchange and no queue of the topology is on the broker with another
  configuration.
\<close>

definition free_or :: "'a option \<Rightarrow> 'a \<Rightarrow> bool" where
  "free_or x v = (x = None \<or> x = Some v)"

definition no_conflict :: "broker \<Rightarrow> bool" where
  "no_conflict b =
     (free_or (exchanges b EXCHANGES_USER_EVENTS) (''topic'', True)
      \<and> free_or (exchanges b EXCHANGES_EMAIL_EVENTS) (''topic'', True)
      \<and> free_or (queues b QUEUES_USER_EVENTS) True
      \<and> free_or (queues b QUEUES_EMAIL_REQUESTS) True
      \<and> free_or (queues b QUEUES_EMAIL_RESPONSES) True)"

text \<open>
  The states the runs below start from: \<open>connected\<close> is the run after \<open>connect\<close> on a
  fresh broker, with the record of its calls emptied; in the next three the broker's
  write buffer is full, or a caller has closed the channel \<open>connect\<close> returned, or the
  connection is closed and the manager has not heard of it.
\<close>

definition clock0 :: clock where
  "clock0 =
     \<lparr> nowISO = ''2024-01-01T00:00:00.000Z'', nowMillis = ''1704067200000'',
       random36 = ''0.4fzyo82mvyr'' \<rparr>"

definition connected :: "broker state" where
  "connected = (snd (connect rabbit (start fresh_broker))) \<lparr> trace := [] \<rparr>"

definition congested :: "broker state" where
  "congested = connected \<lparr> world := (world connected) \<lparr> writable := False \<rparr> \<rparr>"

definition channel_lost :: "broker state" where
  "channel_lost = connected \<lparr> world := (world connected) \<lparr> chanOpen := False \<rparr> \<rparr>"

definition connection_lost :: "broker state" where
  "connection_lost = connected \<lparr> world := (world connected) \<lparr> connOpen := False \<rparr> \<rparr>"

definition unreachable :: "broker state" where
  "unreachable = start (fresh_broker \<lparr> reachable := False \<rparr>)"

definition conflicting :: "broker state" where
  "conflicting = start (fresh_broker \<lparr> queues := [QUEUES_USER_EVENTS \<mapsto> False] \<rparr>)"

definition msg_ok :: delivery where
  "msg_ok = \<lparr> content = ''{}'', deliveryTag = 7, redelivered = False \<rparr>"

definition msg_malformed :: delivery where
  "msg_malformed = \<lparr> content = ''{type:'', deliveryTag = 8, redelivered = False \<rparr>"

definition handler_ok :: "broker handler" where
  "handler_ok c m s = (Inr (), s)"

definition handler_fails :: "broker handler" where
  "handler_fails c m s = (Inl (LibError ''SMTP''), s)"

text \<open>
  A handler that completes while the process shuts down: \<open>close\<close> runs on the manager
  before the handler's promise resolves. \<open>closed_down\<close> is the run \<open>close\<close> leaves when
  it is called on the connected manager.
\<close>

definition handler_during_close :: "broker handler" where
  "handler_during_close c m s = (Inr (), snd (close rabbit s))"

definition closed_down :: "broker state" where
  "closed_down = snd (close rabbit connected)"

text \<open>
  The declarations of the topology by kind (exchanges before queues before bindings),
  what makes one durable (and an exchange a topic exchange), the calls one run of
  \<open>setupExchangesAndQueues\<close> on channel \<open>ch\<close> makes, and the broker once the
  topology is on it.
\<close>

fun decl_rank :: "decl \<Rightarrow> nat" where
  "decl_rank (AssertExchange n ty dur) = 0"
| "decl_rank (AssertQueue n dur) = 1"
| "decl_rank (BindQueue q x pat) = 2"

fun durable_topic :: "decl \<Rightarrow> bool" where
  "durable_topic (AssertExchange n ty dur) = (ty = ''topic'' \<and> dur)"
| "durable_topic (AssertQueue n dur) = dur"
| "durable_topic (BindQueue q x pat) = True"

definition topology_calls :: "nat \<Rightarrow> io_op list" where
  "topology_calls ch = map (\<lambda>d. OnChannel ch (Declare d)) topology"

definition provisioned :: "broker \<Rightarrow> broker" where
  "provisioned b =
     b \<lparr> exchanges := (exchanges b)
            (EXCHANGES_USER_EVENTS \<mapsto> (''topic'', True),
             EXCHANGES_EMAIL_EVENTS \<mapsto> (''topic'', True)),
         queues := (queues b)
            (QUEUES_USER_EVENTS \<mapsto> True, QUEUES_EMAIL_REQUESTS \<mapsto> True,
             QUEUES_EMAIL_RESPONSES \<mapsto> True),
         bindings :=
            insert (QUEUES_EMAIL_RESPONSES, EXCHANGES_EMAIL_EVENTS, ''email.*'')
              (insert (QUEUES_EMAIL_REQUESTS, EXCHANGES_USER_EVENTS, ROUTING_KEYS_USER_REGISTERED)
                 (bindings b)) \<rparr>"

text \<open>
  A broker that will refuse the topology at every attempt: it is reachable, it holds
  the queue user.events as a queue that is not durable, and no exchange of the
  topology's names with another configuration.
\<close>

definition holds_conflict :: "broker \<Rightarrow> bool" where
  "holds_conflict b =
     (reachable b \<and> queues b QUEUES_USER_EVENTS = Some False
      \<and> free_or (exchanges b EXCHANGES_USER_EVENTS) (''topic'', True)
      \<and> free_or (exchanges b EXCHANGES_EMAIL_EVENTS) (''topic'', True))"

text \<open>A payload that has a type and data but no timestamp.\<close>

definition payload_without_timestamp :: "(string \<times> jsval) list" where
  "payload_without_timestamp = [(''type'', JStr ''user.registered''), (''data'', JObj [])]"

section \<open>What a run records\<close>

text \<open>
  An event that reaches the listeners clears the flag and touches nothing else. An
  awaited call is the call followed by the events emitted while it was pending.
\<close>

lemma deliver_keeps:
  "world (deliver cs s) = world s" "trace (deliver cs s) = trace s"
  "listening (deliver cs s) = listening s" "url (mgr (deliver cs s)) = url (mgr s)"
  "channel (mgr (deliver cs s)) = channel (mgr s)"
  "connection (mgr (deliver cs s)) = connection (mgr s)"
  by (simp_all add: deliver_def on_connection_event_def)

lemma deliver_flag:
  "isConnected (mgr (deliver cs s))
     = (isConnected (mgr s) \<and> \<not> list_ex (\<lambda>c. c \<in> set (listening s)) cs)"
  by (simp add: deliver_def on_connection_event_def)

lemma deliver_nothing: "deliver [] s = s"
  by (simp add: deliver_def)

lemma await_eq:
  "await lib op f s =
     (fst (f (world s)),
      deliver (lib_emitted lib op (world s))
        (s \<lparr> world := snd (f (world s)), trace := trace s @ [op] \<rparr>))"
  by (simp add: await_def io_def split: prod.splits)

text \<open>
  Declaring the topology keeps the url, the channel, the connection and the listeners,
  and records no connection attempt and no wait; \<open>connect\<close> keeps the url and records
  exactly one connection attempt, first. When every declaration is accepted, the calls
  recorded are the declarations in their order.
\<close>

lemma declareAll_keeps:
  "url (mgr (snd (declareAll lib ch ds s))) = url (mgr s)
   \<and> channel (mgr (snd (declareAll lib ch ds s))) = channel (mgr s)
   \<and> connection (mgr (snd (declareAll lib ch ds s))) = connection (mgr s)
   \<and> listening (snd (declareAll lib ch ds s)) = listening s"
proof (induction ds arbitrary: s)
  case Nil
  then show ?case by simp
next
  case (Cons d ds)
  let ?s1 = "deliver (lib_emitted lib (OnChannel ch (Declare d)) (world s))
               (s \<lparr> world := snd (lib_declare lib ch d (world s)),
                    trace := trace s @ [OnChannel ch (Declare d)] \<rparr>)"
  show ?case
  proof (cases "fst (lib_declare lib ch d (world s))")
    case (Inl e)
    then show ?thesis by (simp add: await_eq deliver_keeps)
  next
    case (Inr u)
    then show ?thesis using Cons.IH[of ?s1] by (simp add: await_eq deliver_keeps)
  qed
qed

lemma declareAll_trace:
  "\<exists>ops. trace (snd (declareAll lib ch ds s)) = trace s @ ops \<and> schedule ops = []"
proof (induction ds arbitrary: s)
  case Nil
  then show ?case by (simp add: schedule_def)
next
  case (Cons d ds)
  let ?s1 = "deliver (lib_emitted lib (OnChannel ch (Declare d)) (world s))
               (s \<lparr> world := snd (lib_declare lib ch d (world s)),
                    trace := trace s @ [OnChannel ch (Declare d)] \<rparr>)"
  show ?case
  proof (cases "fst (lib_declare lib ch d (world s))")
    case (Inl e)
    then show ?thesis by (simp add: await_eq deliver_keeps schedule_def)
  next
    case (Inr u)
    from Cons.IH[of ?s1] obtain ops where
      "trace (snd (declareAll lib ch ds ?s1)) = trace ?s1 @ ops" "schedule ops = []" by blast
    then show ?thesis using Inr by (simp add: await_eq deliver_keeps schedule_def)
  qed
qed

lemma setup_keeps:
  "url (mgr (snd (setupExchangesAndQueues lib s))) = url (mgr s)
   \<and> listening (snd (setupExchangesAndQueues lib s)) = listening s"
  by (simp add: setupExchangesAndQueues_def declareAll_keeps split: option.splits)

lemma setup_trace:
  "\<exists>ops. trace (snd (setupExchangesAndQueues lib s)) = trace s @ ops \<and> schedule ops = []"
proof (cases "channel (mgr s)")
  case None
  then show ?thesis by (simp add: setupExchangesAndQueues_def schedule_def)
next
  case (Some ch)
  then show ?thesis using declareAll_trace[of lib ch topology s]
    by (simp add: setupExchangesAndQueues_def)
qed

lemma connect_effect:
  "url (mgr (snd (connect lib s))) = url (mgr s)
   \<and> (\<exists>ops. trace (snd (connect lib s)) = trace s @ AmqpConnect (url (mgr s)) # ops
          \<and> schedule ops = [])"
proof -
  define s1 where
    "s1 = deliver (lib_emitted lib (AmqpConnect (url (mgr s))) (world s))
            (s \<lparr> world := snd (lib_connect lib (url (mgr s)) (world s)),
                 trace := trace s @ [AmqpConnect (url (mgr s))] \<rparr>)"
  have a1: "await lib (AmqpConnect (url (mgr s))) (lib_connect lib (url (mgr s))) s
              = (fst (lib_connect lib (url (mgr s)) (world s)), s1)"
    by (simp add: await_eq s1_def)
  have f1: "url (mgr s1) = url (mgr s)" "trace s1 = trace s @ [AmqpConnect (url (mgr s))]"
    by (simp_all add: s1_def deliver_keeps)
  show ?thesis
  proof (cases "fst (lib_connect lib (url (mgr s)) (world s))")
    case (Inl e)
    then show ?thesis using f1 unfolding connect_def a1 by (simp add: schedule_def)
  next
    case (Inr c)
    define s2 where "s2 = s1 \<lparr> mgr := (mgr s1) \<lparr> connection := Some c \<rparr> \<rparr>"
    define s3 where
      "s3 = deliver (lib_emitted lib (CreateChannel c) (world s2))
              (s2 \<lparr> world := snd (lib_createChannel lib c (world s2)),
                    trace := trace s2 @ [CreateChannel c] \<rparr>)"
    have a2: "await lib (CreateChannel c) (lib_createChannel lib c) s2
                = (fst (lib_createChannel lib c (world s2)), s3)"
      by (simp add: await_eq s3_def)
    have f3: "url (mgr s3) = url (mgr s)"
      "trace s3 = trace s @ [AmqpConnect (url (mgr s)), CreateChannel c]"
      by (simp_all add: s3_def s2_def deliver_keeps f1)
    have step1: "connect lib s =
                   (case await lib (CreateChannel c) (lib_createChannel lib c) s2 of
                      (Inl e, s3) \<Rightarrow> (Inl e, s3)
                    | (Inr ch, s3) \<Rightarrow>
                        (let s4 = s3 \<lparr> mgr := (mgr s3) \<lparr> channel := Some ch, isConnected := True \<rparr>,
                                       listening := c # listening s3 \<rparr> in
                         case setupExchangesAndQueues lib s4 of
                           (Inl e, s5) \<Rightarrow> (Inl e, s5)
                         | (Inr u, s5) \<Rightarrow> (Inr (channel (mgr s5)), s5)))"
      unfolding connect_def a1 using Inr by (simp add: s2_def Let_def)
    show ?thesis
    proof (cases "fst (lib_createChannel lib c (world s2))")
      case (Inl e)
      then show ?thesis using f3 unfolding step1 a2 by (simp add: schedule_def)
    next
      case chan: (Inr ch)
      define s4 where
        "s4 = s3 \<lparr> mgr := (mgr s3) \<lparr> channel := Some ch, isConnected := True \<rparr>,
                   listening := c # listening s3 \<rparr>"
      have eq: "connect lib s =
                  (case setupExchangesAndQueues lib s4 of
                     (Inl e, s5) \<Rightarrow> (Inl e, s5)
                   | (Inr u, s5) \<Rightarrow> (Inr (channel (mgr s5)), s5))"
        unfolding step1 a2 using chan by (simp add: s4_def Let_def)
      obtain r3 s5 where c3: "setupExchangesAndQueues lib s4 = (r3, s5)"
        by (cases "setupExchangesAndQueues lib s4")
      have snd_eq: "snd (connect lib s) = s5"
        using eq c3 by (cases r3) simp_all
      from setup_trace[of lib s4] setup_keeps[of lib s4] c3
      obtain ops where "trace s5 = trace s4 @ ops" "schedule ops = []"
        "url (mgr s5) = url (mgr s4)"
        by auto
      then show ?thesis
        using snd_eq f3 by (simp add: s4_def schedule_def)
    qed
  qed
qed

lemma sleep_simps:
  "url (mgr (sleep lib d s)) = url (mgr s)" "trace (sleep lib d s) = trace s @ [Sleep d]"
  "\<not> isConnected (mgr s) \<Longrightarrow> \<not> isConnected (mgr (sleep lib d s))"
  by (simp_all add: sleep_def await_eq deliver_keeps deliver_flag)

lemma declareAll_success:
  "fst (declareAll lib ch ds s) = Inr () \<Longrightarrow>
     trace (snd (declareAll lib ch ds s)) = trace s @ map (\<lambda>d. OnChannel ch (Declare d)) ds"
proof (induction ds arbitrary: s)
  case Nil
  then show ?case by simp
next
  case (Cons d ds)
  let ?s1 = "deliver (lib_emitted lib (OnChannel ch (Declare d)) (world s))
               (s \<lparr> world := snd (lib_declare lib ch d (world s)),
                    trace := trace s @ [OnChannel ch (Declare d)] \<rparr>)"
  show ?case
  proof (cases "fst (lib_declare lib ch d (world s))")
    case (Inl e)
    with Cons.prems show ?thesis by (simp add: await_eq)
  next
    case (Inr u)
    with Cons.prems have "fst (declareAll lib ch ds ?s1) = Inr ()" by (simp add: await_eq)
    from Cons.IH[OF this] Inr show ?thesis by (simp add: await_eq deliver_keeps)
  qed
qed

lemma declareAll_prefix:
  "\<exists>k. trace (snd (declareAll lib ch ds s))
         = trace s @ take k (map (\<lambda>d. OnChannel ch (Declare d)) ds)"
proof (induction ds arbitrary: s)
  case Nil
  then show ?case by simp
next
  case (Cons d ds)
  let ?s1 = "deliver (lib_emitted lib (OnChannel ch (Declare d)) (world s))
               (s \<lparr> world := snd (lib_declare lib ch d (world s)),
                    trace := trace s @ [OnChannel ch (Declare d)] \<rparr>)"
  show ?case
  proof (cases "fst (lib_declare lib ch d (world s))")
    case (Inl e)
    then have "trace (snd (declareAll lib ch (d # ds) s))
                   = trace s @ take 1 (map (\<lambda>d. OnChannel ch (Declare d)) (d # ds))"
      by (simp add: await_eq deliver_keeps)
    then show ?thesis by blast
  next
    case (Inr u)
    from Cons.IH[of ?s1] obtain k where
      "trace (snd (declareAll lib ch ds ?s1))
         = trace ?s1 @ take k (map (\<lambda>d. OnChannel ch (Declare d)) ds)" by blast
    with Inr have "trace (snd (declareAll lib ch (d # ds) s))
                   = trace s @ take (Suc k) (map (\<lambda>d. OnChannel ch (Declare d)) (d # ds))"
      by (simp add: await_eq deliver_keeps)
    then show ?thesis by blast
  qed
qed

section \<open>The reference broker at work\<close>

text \<open>
  On a broker without a conflicting exchange or queue, and on an open channel, the
  seven declarations are accepted and leave the broker provisioned; a provisioned
  broker stays as it is when the topology is declared again.
\<close>

lemmas name_defs =
  QUEUES_USER_EVENTS_def QUEUES_EMAIL_REQUESTS_def QUEUES_EMAIL_RESPONSES_def
  EXCHANGES_USER_EVENTS_def EXCHANGES_EMAIL_EVENTS_def ROUTING_KEYS_USER_REGISTERED_def

lemma assert_exchange_ok:
  "free_or (exchanges b n) (ty, dur) \<Longrightarrow>
     broker_apply (AssertExchange n ty dur) b
       = (Inr (), b \<lparr> exchanges := (exchanges b)(n \<mapsto> (ty, dur)) \<rparr>)"
  by (auto simp: free_or_def map_upd_triv)

lemma assert_queue_ok:
  "free_or (queues b n) dur \<Longrightarrow>
     broker_apply (AssertQueue n dur) b = (Inr (), b \<lparr> queues := (queues b)(n \<mapsto> dur) \<rparr>)"
  by (auto simp: free_or_def map_upd_triv)

lemma free_or_upd: "free_or ((m(k \<mapsto> v)) k') v' = (if k' = k then v' = v else free_or (m k') v')"
  by (auto simp: free_or_def)

lemma free_or_Some: "free_or (Some v) v' = (v = v')"
  by (auto simp: free_or_def)

lemma bind_queue_ok:
  "queues b q \<noteq> None \<Longrightarrow> exchanges b x \<noteq> None \<Longrightarrow>
     broker_apply (BindQueue q x pat) b
       = (Inr (), b \<lparr> bindings := insert (q, x, pat) (bindings b) \<rparr>)"
  by simp

text \<open>
  A declaration on an open channel of the reference broker: accepted, and no connection
  emits; or refused, and the connection emits.
\<close>

lemma rabbit_declare:
  "chanOpen (world s) \<Longrightarrow>
     await rabbit (OnChannel ch (Declare d)) (lib_declare rabbit ch d) s =
       (fst (broker_apply d (world s)),
        deliver (if refused d (world s) then [1] else [])
          (s \<lparr> world := snd (broker_apply d (world s)),
               trace := trace s @ [OnChannel ch (Declare d)] \<rparr>))"
  by (simp add: await_eq rabbit_def broker_declare_def)

lemma rabbit_accepts:
  "chanOpen (world s) \<Longrightarrow> broker_apply d (world s) = (Inr (), b) \<Longrightarrow>
     await rabbit (OnChannel ch (Declare d)) (lib_declare rabbit ch d) s =
       (Inr (), s \<lparr> world := b, trace := trace s @ [OnChannel ch (Declare d)] \<rparr>)"
  by (simp add: rabbit_declare refused_def deliver_nothing)

lemma accepted_keeps_open:
  "fst (broker_apply d b) = Inr u \<Longrightarrow> chanOpen (snd (broker_apply d b)) = chanOpen b"
  by (cases d) (auto split: option.splits if_splits)

lemma broker_provision:
  assumes "no_conflict b" and "chanOpen b"
  shows "declareAll rabbit ch topology \<lparr> mgr = m, world = b, trace = tr, listening = ls \<rparr>
           = (Inr (), \<lparr> mgr = m, world = provisioned b, trace = tr @ topology_calls ch,
                         listening = ls \<rparr>)"
  using assms
  by (simp add: topology_def topology_calls_def rabbit_declare refused_def deliver_nothing
      no_conflict_def assert_exchange_ok assert_queue_ok bind_queue_ok free_or_upd provisioned_def
      name_defs del: broker_apply.simps)

lemma upd2_twice: "(m(a \<mapsto> x, b \<mapsto> y))(a \<mapsto> x, b \<mapsto> y) = m(a \<mapsto> x, b \<mapsto> y)"
  by (auto simp: fun_eq_iff)

lemma upd3_twice:
  "(m(a \<mapsto> x, b \<mapsto> y, c \<mapsto> z))(a \<mapsto> x, b \<mapsto> y, c \<mapsto> z) = m(a \<mapsto> x, b \<mapsto> y, c \<mapsto> z)"
  by (auto simp: fun_eq_iff)

lemma insert2_twice: "insert x (insert y (insert x (insert y S))) = insert x (insert y S)"
  by auto

lemma provisioned_again: "provisioned (provisioned b) = provisioned b"
  by (simp add: provisioned_def upd2_twice upd3_twice insert2_twice)

lemma provisioned_no_conflict: "no_conflict (provisioned b)"
  by (simp add: provisioned_def no_conflict_def free_or_def name_defs)

lemma provisioned_chanOpen: "chanOpen (provisioned b) = chanOpen b"
  by (simp add: provisioned_def)

lemma setup_provisions:
  assumes "channel (mgr s) = Some ch" and "chanOpen (world s)" and "no_conflict (world s)"
  shows "setupExchangesAndQueues rabbit s
           = (Inr (), s \<lparr> world := provisioned (world s), trace := trace s @ topology_calls ch \<rparr>)"
proof (cases s)
  case (fields m w tr ls)
  with assms broker_provision[of w ch m tr ls] show ?thesis
    by (simp add: setupExchangesAndQueues_def)
qed

lemma setup_times_provisions:
  assumes "channel (mgr s) = Some ch" and "chanOpen (world s)" and "no_conflict (world s)"
  shows "setup_times rabbit (Suc n) s
           = (Inr (), s \<lparr> world := provisioned (world s),
                           trace := trace s @ concat (replicate (Suc n) (topology_calls ch)) \<rparr>)"
  using assms
proof (induction n arbitrary: s)
  case 0
  then show ?case by (simp add: setup_provisions)
next
  case (Suc n)
  let ?s1 = "s \<lparr> world := provisioned (world s), trace := trace s @ topology_calls ch \<rparr>"
  have first: "setupExchangesAndQueues rabbit s = (Inr (), ?s1)"
    using Suc.prems by (rule setup_provisions)
  have "setup_times rabbit (Suc n) ?s1
          = (Inr (), ?s1 \<lparr> world := provisioned (world ?s1),
                            trace := trace ?s1 @ concat (replicate (Suc n) (topology_calls ch)) \<rparr>)"
    using Suc.prems by (intro Suc.IH) (simp_all add: provisioned_no_conflict provisioned_chanOpen)
  then show ?case
    using first by (simp add: provisioned_again)
qed

text \<open>
  \<open>connect\<close> on the reference broker: against a broker that is not reachable, against a
  fresh one, and, whatever the broker holds, when it throws.
\<close>

lemma rabbit_connect:
  "await rabbit (AmqpConnect u) (lib_connect rabbit u) s =
     (if reachable (world s)
      then (Inr 1, s \<lparr> world := (world s) \<lparr> connOpen := True \<rparr>, trace := trace s @ [AmqpConnect u] \<rparr>)
      else (Inl (LibError ''ECONNREFUSED''), s \<lparr> trace := trace s @ [AmqpConnect u] \<rparr>))"
  "await rabbit (CreateChannel c) (lib_createChannel rabbit c) s =
     (if connOpen (world s)
      then (Inr 1, s \<lparr> world := (world s) \<lparr> chanOpen := True \<rparr>, trace := trace s @ [CreateChannel c] \<rparr>)
      else (Inl (LibError ''Connection closed''), s \<lparr> trace := trace s @ [CreateChannel c] \<rparr>))"
  by (simp_all add: await_eq rabbit_def deliver_nothing)

lemma rabbit_settle:
  "lib_ack rabbit ch m b =
     (if chanOpen b then (Inr (), b) else (Inl (LibError ''Channel closed''), b))"
  "lib_nack rabbit ch m allUpTo requeue b =
     (if chanOpen b then (Inr (), b) else (Inl (LibError ''Channel closed''), b))"
  by (simp_all add: rabbit_def)

lemma rabbit_sleep: "sleep rabbit d s = s \<lparr> trace := trace s @ [Sleep d] \<rparr>"
  by (simp add: sleep_def await_eq rabbit_def deliver_nothing)

lemma connect_unreachable:
  "\<not> reachable (world s) \<Longrightarrow>
     connect rabbit s = (Inl (LibError ''ECONNREFUSED''),
                         s \<lparr> trace := trace s @ [AmqpConnect (url (mgr s))] \<rparr>)"
  by (simp add: connect_def rabbit_connect)

lemma connect_reachable:
  "reachable (world s) \<Longrightarrow>
     connect rabbit s =
       (case declareAll rabbit 1 topology
               (s \<lparr> world := (world s) \<lparr> connOpen := True, chanOpen := True \<rparr>,
                    trace := trace s @ [AmqpConnect (url (mgr s)), CreateChannel 1],
                    mgr := (mgr s) \<lparr> connection := Some 1, channel := Some 1, isConnected := True \<rparr>,
                    listening := 1 # listening s \<rparr>) of
          (Inl e, s5) \<Rightarrow> (Inl e, s5)
        | (Inr u, s5) \<Rightarrow> (Inr (channel (mgr s5)), s5))"
  by (simp add: connect_def rabbit_connect setupExchangesAndQueues_def)

lemma refused_clears_flag:
  "chanOpen (world s) \<Longrightarrow> 1 \<in> set (listening s) \<Longrightarrow> fst (declareAll rabbit ch ds s) = Inl e \<Longrightarrow>
     \<not> isConnected (mgr (snd (declareAll rabbit ch ds s)))"
proof (induction ds arbitrary: s)
  case Nil
  then show ?case by simp
next
  case (Cons d ds)
  let ?s1 = "deliver (if refused d (world s) then [1] else [])
               (s \<lparr> world := snd (broker_apply d (world s)),
                    trace := trace s @ [OnChannel ch (Declare d)] \<rparr>)"
  show ?case
  proof (cases "fst (broker_apply d (world s))")
    case (Inl e')
    then have "refused d (world s)" by (simp add: refused_def)
    with Inl Cons.prems(1,2) show ?thesis
      by (simp add: rabbit_declare deliver_flag)
  next
    case (Inr u)
    have o: "chanOpen (world ?s1)" "1 \<in> set (listening ?s1)"
      using Cons.prems(1,2) accepted_keeps_open[OF Inr] by (simp_all add: deliver_keeps)
    have "declareAll rabbit ch (d # ds) s = declareAll rabbit ch ds ?s1"
      using Inr Cons.prems(1) by (simp add: rabbit_declare)
    with Cons.IH[OF o] Cons.prems(3) show ?thesis by simp
  qed
qed

lemma connect_failure_clears_flag:
  assumes "\<not> isConnected (mgr s)" and "fst (connect rabbit s) = Inl e"
  shows "\<not> isConnected (mgr (snd (connect rabbit s)))"
proof (cases "reachable (world s)")
  case False
  with assms(1) show ?thesis by (simp add: connect_unreachable)
next
  case True
  let ?s4 = "s \<lparr> world := (world s) \<lparr> connOpen := True, chanOpen := True \<rparr>,
                  trace := trace s @ [AmqpConnect (url (mgr s)), CreateChannel 1],
                  mgr := (mgr s) \<lparr> connection := Some 1, channel := Some 1, isConnected := True \<rparr>,
                  listening := 1 # listening s \<rparr>"
  obtain r s5 where d: "declareAll rabbit 1 topology ?s4 = (r, s5)"
    by (cases "declareAll rabbit 1 topology ?s4")
  from assms(2) True d obtain e' where r: "r = Inl e'" and c: "connect rabbit s = (Inl e', s5)"
    by (cases r) (simp_all add: connect_reachable)
  have f: "fst (declareAll rabbit 1 topology ?s4) = Inl e'"
    unfolding d r by simp
  have "\<not> isConnected (mgr (snd (declareAll rabbit 1 topology ?s4)))"
    by (rule refused_clears_flag[OF _ _ f]) simp_all
  then show ?thesis unfolding c d by simp
qed

lemma connect_fresh_run:
  "connect rabbit (start fresh_broker) =
     (Inr (Some 1),
      \<lparr> mgr = \<lparr> url = ''amqp://localhost'', connection = Some 1, channel = Some 1,
                isConnected = True \<rparr>,
        world = provisioned (fresh_broker \<lparr> connOpen := True, chanOpen := True \<rparr>),
        trace = [AmqpConnect ''amqp://localhost'', CreateChannel 1] @ topology_calls 1,
        listening = [1] \<rparr>)"
  by (simp add: connect_reachable start_def new_RabbitMQManager_def fresh_broker_def
      broker_provision no_conflict_def free_or_def)

lemma connected_eq:
  "connected =
     \<lparr> mgr = \<lparr> url = ''amqp://localhost'', connection = Some 1, channel = Some 1,
               isConnected = True \<rparr>,
       world = provisioned (fresh_broker \<lparr> connOpen := True, chanOpen := True \<rparr>),
       trace = [], listening = [1] \<rparr>"
  by (simp add: connected_def connect_fresh_run)

lemma connect_fresh: "fst (connect rabbit (start fresh_broker)) = Inr (Some 1)"
  by (simp add: connect_fresh_run)

text \<open>
  \<open>close\<close> on the connected manager: the channel and the connection close, the
  connection emits \<open>close\<close>, the flag is cleared; the channel field stays.
\<close>

lemma closed_down_eq:
  "closed_down =
     connected \<lparr> world := (world connected) \<lparr> chanOpen := False, connOpen := False \<rparr>,
                 trace := [OnChannel 1 CloseChannel, CloseConnection 1],
                 mgr := (mgr connected) \<lparr> isConnected := False \<rparr> \<rparr>"
  by (simp add: closed_down_def close_def close_try_def await_eq rabbit_def connected_eq
      provisioned_def fresh_broker_def deliver_def on_connection_event_def)

lemma closed_down_fields:
  "\<not> chanOpen (world closed_down)" "channel (mgr closed_down) = Some 1"
  "trace closed_down = [OnChannel 1 CloseChannel, CloseConnection 1]"
  "\<not> isConnected (mgr closed_down)"
  by (simp_all add: closed_down_eq connected_eq)

section \<open>The consumer\<close>

text \<open>
  Claim C1, as the code has it. For a delivery whose payload parses, with \<open>s1\<close> the run
  as the awaited handler leaves it and \<open>ch\<close> the manager's channel: if the handler
  raises, the consumer calls \<open>nack(msg, false, true)\<close> and nothing else, and what that
  call does is the outcome. If the handler completes, the consumer calls \<open>ack\<close>; if
  \<open>ack\<close> returns, that is the only call. If \<open>ack\<close> throws, as it does when the channel
  was closed while the handler was awaited, the same \<open>catch\<close> then calls
  \<open>nack(msg, false, true)\<close>: two calls for a handler that completed. So the delivery is
  settled exactly once, by \<open>ack\<close> if and only if the handler completed and by \<open>nack\<close>
  with requeue if and only if it raised, provided \<open>channel.ack\<close> and \<open>channel.nack\<close>
  return. (A manager without a channel cannot have registered a consumer; the consumer
  would throw a \<open>TypeError\<close> without making a call.)
\<close>

theorem onMessage_settles_once:
  assumes "parse (content m) = Inr c" and "callback c m s = (r, s1)"
  shows "(channel (mgr s1) = None \<longrightarrow>
            onMessage lib parse callback (Some m) s = (Inl TypeError, s1))
       \<and> (\<forall>ch. channel (mgr s1) = Some ch \<longrightarrow>
            (\<forall>e. r = Inl e \<longrightarrow>
               onMessage lib parse callback (Some m) s =
                 (case lib_nack lib ch m False True (world s1) of
                    (r', w) \<Rightarrow>
                      (r', s1 \<lparr> world := w,
                                trace := trace s1 @ [OnChannel ch (Nack (deliveryTag m) False True)] \<rparr>)))
          \<and> (\<forall>w. r = Inr () \<and> lib_ack lib ch m (world s1) = (Inr (), w) \<longrightarrow>
               onMessage lib parse callback (Some m) s =
                 (Inr (), s1 \<lparr> world := w,
                              trace := trace s1 @ [OnChannel ch (Ack (deliveryTag m))] \<rparr>))
          \<and> (\<forall>e w. r = Inr () \<and> lib_ack lib ch m (world s1) = (Inl e, w) \<longrightarrow>
               onMessage lib parse callback (Some m) s =
                 (case lib_nack lib ch m False True w of
                    (r', w') \<Rightarrow>
                      (r', s1 \<lparr> world := w',
                                trace := trace s1 @ [OnChannel ch (Ack (deliveryTag m)),
                                                     OnChannel ch (Nack (deliveryTag m) False True)] \<rparr>)))
          \<and> (fst (lib_ack lib ch m (world s1)) = Inr ()
               \<and> fst (lib_nack lib ch m False True (world s1)) = Inr ()
             \<longrightarrow> (\<exists>op. fst (onMessage lib parse callback (Some m) s) = Inr ()
                    \<and> trace (snd (onMessage lib parse callback (Some m) s))
                        = trace s1 @ [OnChannel ch op]
                    \<and> (op = Ack (deliveryTag m)) = (r = Inr ())
                    \<and> (op = Nack (deliveryTag m) False True) = (\<exists>e. r = Inl e))))"
proof -
  let ?run = "onMessage lib parse callback (Some m) s"
  have none: "channel (mgr s1) = None \<longrightarrow> ?run = (Inl TypeError, s1)"
    using assms
    by (cases r) (simp_all add: onMessage_def onMessage_try_def channel_ack_def channel_nack_def)
  have some: "\<forall>ch. channel (mgr s1) = Some ch \<longrightarrow>
            (\<forall>e. r = Inl e \<longrightarrow>
               ?run =
                 (case lib_nack lib ch m False True (world s1) of
                    (r', w) \<Rightarrow>
                      (r', s1 \<lparr> world := w,
                                trace := trace s1 @ [OnChannel ch (Nack (deliveryTag m) False True)] \<rparr>)))
          \<and> (\<forall>w. r = Inr () \<and> lib_ack lib ch m (world s1) = (Inr (), w) \<longrightarrow>
               ?run =
                 (Inr (), s1 \<lparr> world := w,
                              trace := trace s1 @ [OnChannel ch (Ack (deliveryTag m))] \<rparr>))
          \<and> (\<forall>e w. r = Inr () \<and> lib_ack lib ch m (world s1) = (Inl e, w) \<longrightarrow>
               ?run =
                 (case lib_nack lib ch m False True w of
                    (r', w') \<Rightarrow>
                      (r', s1 \<lparr> world := w',
                                trace := trace s1 @ [OnChannel ch (Ack (deliveryTag m)),
                                                     OnChannel ch (Nack (deliveryTag m) False True)] \<rparr>)))
          \<and> (fst (lib_ack lib ch m (world s1)) = Inr ()
               \<and> fst (lib_nack lib ch m False True (world s1)) = Inr ()
             \<longrightarrow> (\<exists>op. fst ?run = Inr ()
                    \<and> trace (snd ?run) = trace s1 @ [OnChannel ch op]
                    \<and> (op = Ack (deliveryTag m)) = (r = Inr ())
                    \<and> (op = Nack (deliveryTag m) False True) = (\<exists>e. r = Inl e)))"
    (is "\<forall>ch. _ \<longrightarrow> ?settles ch")
  proof (intro allI impI)
    fix ch
    assume ch: "channel (mgr s1) = Some ch"
    let ?ack = "OnChannel ch (Ack (deliveryTag m))"
    let ?nack = "OnChannel ch (Nack (deliveryTag m) False True)"
    have raised: "\<forall>e. r = Inl e \<longrightarrow>
                    ?run = (case lib_nack lib ch m False True (world s1) of
                              (r', w) \<Rightarrow> (r', s1 \<lparr> world := w, trace := trace s1 @ [?nack] \<rparr>))"
      using assms ch
      by (simp add: onMessage_def onMessage_try_def channel_nack_def io_def)
    have acked: "\<forall>w. r = Inr () \<and> lib_ack lib ch m (world s1) = (Inr (), w) \<longrightarrow>
                   ?run = (Inr (), s1 \<lparr> world := w, trace := trace s1 @ [?ack] \<rparr>)"
      using assms ch
      by (simp add: onMessage_def onMessage_try_def channel_ack_def io_def)
    have thrown: "\<forall>e w. r = Inr () \<and> lib_ack lib ch m (world s1) = (Inl e, w) \<longrightarrow>
                    ?run = (case lib_nack lib ch m False True w of
                              (r', w') \<Rightarrow>
                                (r', s1 \<lparr> world := w', trace := trace s1 @ [?ack, ?nack] \<rparr>))"
      using assms ch
      by (simp add: onMessage_def onMessage_try_def channel_ack_def channel_nack_def io_def)
    have once: "fst (lib_ack lib ch m (world s1)) = Inr ()
                  \<and> fst (lib_nack lib ch m False True (world s1)) = Inr ()
                \<longrightarrow> (\<exists>op. fst ?run = Inr () \<and> trace (snd ?run) = trace s1 @ [OnChannel ch op]
                       \<and> (op = Ack (deliveryTag m)) = (r = Inr ())
                       \<and> (op = Nack (deliveryTag m) False True) = (\<exists>e. r = Inl e))"
    proof (intro impI, elim conjE)
      assume a: "fst (lib_ack lib ch m (world s1)) = Inr ()"
        and n: "fst (lib_nack lib ch m False True (world s1)) = Inr ()"
      show "\<exists>op. fst ?run = Inr () \<and> trace (snd ?run) = trace s1 @ [OnChannel ch op]
                       \<and> (op = Ack (deliveryTag m)) = (r = Inr ())
                       \<and> (op = Nack (deliveryTag m) False True) = (\<exists>e. r = Inl e)"
      proof (cases r)
        case (Inl e)
        obtain w where "lib_nack lib ch m False True (world s1) = (Inr (), w)"
          using n by (cases "lib_nack lib ch m False True (world s1)") simp
        with raised Inl show ?thesis by simp
      next
        case (Inr u)
        obtain w where "lib_ack lib ch m (world s1) = (Inr (), w)"
          using a by (cases "lib_ack lib ch m (world s1)") simp
        with acked Inr show ?thesis by simp
      qed
    qed
    show "?settles ch"
      using raised acked thrown once by (intro conjI)
  qed
  from none some show ?thesis
    by (rule conjI)
qed

text \<open>
  On the reference broker: a handler that returns has its delivery acknowledged, one
  that raises has it rejected with requeue; and for a handler that returns after the
  manager was closed, \<open>ack\<close> throws and \<open>nack\<close> is called after it.
\<close>

theorem onMessage_settles_once_witness:
  "parse_empty_object (content msg_ok) = Inr (JObj [])
   \<and> channel (mgr connected) = Some 1
   \<and> handler_ok (JObj []) msg_ok connected = (Inr (), connected)
   \<and> handler_fails (JObj []) msg_ok connected = (Inl (LibError ''SMTP''), connected)
   \<and> lib_ack rabbit 1 msg_ok (world connected) = (Inr (), world connected)
   \<and> lib_nack rabbit 1 msg_ok False True (world connected) = (Inr (), world connected)
   \<and> onMessage rabbit parse_empty_object handler_ok (Some msg_ok) connected
       = (Inr (), connected \<lparr> trace := [OnChannel 1 (Ack 7)] \<rparr>)
   \<and> onMessage rabbit parse_empty_object handler_fails (Some msg_ok) connected
       = (Inr (), connected \<lparr> trace := [OnChannel 1 (Nack 7 False True)] \<rparr>)
   \<and> handler_during_close (JObj []) msg_ok connected = (Inr (), closed_down)
   \<and> channel (mgr closed_down) = Some 1
   \<and> lib_ack rabbit 1 msg_ok (world closed_down)
       = (Inl (LibError ''Channel closed''), world closed_down)
   \<and> onMessage rabbit parse_empty_object handler_during_close (Some msg_ok) connected
       = (Inl (LibError ''Channel closed''),
          closed_down \<lparr> trace := trace closed_down
                          @ [OnChannel 1 (Ack 7), OnChannel 1 (Nack 7 False True)] \<rparr>)"
proof -
  have p: "parse_empty_object (content msg_ok) = Inr (JObj [])"
    by (simp add: parse_empty_object_def msg_ok_def)
  have ch: "channel (mgr connected) = Some 1"
    by (simp add: connected_eq)
  have late: "handler_during_close (JObj []) msg_ok connected = (Inr (), closed_down)"
    by (simp add: handler_during_close_def closed_down_def)
  have ch': "channel (mgr closed_down) = Some 1"
    by (rule closed_down_fields)
  have a': "lib_ack rabbit 1 msg_ok (world closed_down)
              = (Inl (LibError ''Channel closed''), world closed_down)"
    and n': "lib_nack rabbit 1 msg_ok False True (world closed_down)
              = (Inl (LibError ''Channel closed''), world closed_down)"
    by (simp_all add: rabbit_settle closed_down_fields)
  have ok: "handler_ok (JObj []) msg_ok connected = (Inr (), connected)"
    by (simp add: handler_ok_def)
  have bad: "handler_fails (JObj []) msg_ok connected = (Inl (LibError ''SMTP''), connected)"
    by (simp add: handler_fails_def)
  have tag: "deliveryTag msg_ok = 7" "trace connected = []"
    by (simp_all add: msg_ok_def connected_eq)
  have a: "lib_ack rabbit 1 msg_ok (world connected) = (Inr (), world connected)"
    and n: "lib_nack rabbit 1 msg_ok False True (world connected) = (Inr (), world connected)"
    by (simp_all add: rabbit_settle connected_eq provisioned_chanOpen)
  from onMessage_settles_once[of parse_empty_object msg_ok "JObj []" handler_ok connected
        "Inr ()" connected rabbit, OF p ok] ch a
  have 1: "onMessage rabbit parse_empty_object handler_ok (Some msg_ok) connected
             = (Inr (), connected \<lparr> trace := [OnChannel 1 (Ack 7)] \<rparr>)"
    using tag by simp
  from onMessage_settles_once[of parse_empty_object msg_ok "JObj []" handler_fails connected
        "Inl (LibError ''SMTP'')" connected rabbit, OF p bad] ch n
  have 2: "onMessage rabbit parse_empty_object handler_fails (Some msg_ok) connected
             = (Inr (), connected \<lparr> trace := [OnChannel 1 (Nack 7 False True)] \<rparr>)"
    using tag by simp
  from onMessage_settles_once[of parse_empty_object msg_ok "JObj []" handler_during_close
        connected "Inr ()" closed_down rabbit, OF p late] ch' a' n'
  have 3: "onMessage rabbit parse_empty_object handler_during_close (Some msg_ok) connected
       = (Inl (LibError ''Channel closed''),
          closed_down \<lparr> trace := trace closed_down
                          @ [OnChannel 1 (Ack 7), OnChannel 1 (Nack 7 False True)] \<rparr>)"
    using tag by simp
  show ?thesis using p ch ok bad a n 1 2 late ch' a' 3 by simp
qed

text \<open>
  The claim as it was stated fails when the channel is closed while the handler is
  awaited. The service closes the manager on SIGINT; the handler then completes
  without error, \<open>ack\<close> throws on the closed channel, the \<open>catch\<close> calls \<open>nack\<close>, which
  throws as well: the consumer has called both and the delivery is settled by neither.
\<close>

theorem onMessage_unsettled_after_close:
  "parse_empty_object (content msg_ok) = Inr (JObj [])
   \<and> fst (handler_during_close (JObj []) msg_ok connected) = Inr ()
   \<and> fst (onMessage rabbit parse_empty_object handler_during_close (Some msg_ok) connected)
       = Inl (LibError ''Channel closed'')
   \<and> trace (snd (onMessage rabbit parse_empty_object handler_during_close (Some msg_ok) connected))
       = [OnChannel 1 CloseChannel, CloseConnection 1, OnChannel 1 (Ack 7),
          OnChannel 1 (Nack 7 False True)]
   \<and> fst (lib_ack rabbit 1 msg_ok (world closed_down)) = Inl (LibError ''Channel closed'')
   \<and> fst (lib_nack rabbit 1 msg_ok False True (world closed_down))
       = Inl (LibError ''Channel closed'')"
proof -
  have p: "parse_empty_object (content msg_ok) = Inr (JObj [])" "deliveryTag msg_ok = 7"
    by (simp_all add: parse_empty_object_def msg_ok_def)
  have h: "handler_during_close (JObj []) msg_ok connected = (Inr (), closed_down)"
    by (simp add: handler_during_close_def closed_down_def)
  have run: "onMessage rabbit parse_empty_object handler_during_close (Some msg_ok) connected
               = (Inl (LibError ''Channel closed''),
                  closed_down \<lparr> trace := trace closed_down
                                  @ [OnChannel 1 (Ack 7), OnChannel 1 (Nack 7 False True)] \<rparr>)"
    by (simp add: onMessage_def onMessage_try_def p h channel_ack_def channel_nack_def io_def
        closed_down_fields rabbit_settle)
  show ?thesis
    unfolding run h using p by (simp add: rabbit_settle closed_down_fields)
qed

text \<open>
  Claim C2, as the code has it. A delivery whose payload does not parse is rejected
  with \<open>nack(msg, false, true)\<close>, that is with requeue, by the same \<open>catch\<close> that
  rejects after a handler error, and what that call does is the outcome: the consumer
  returns when it returns. The handler is not called: the run that results is the same
  whatever the handler is.
\<close>

theorem onMessage_malformed_requeues:
  assumes "parse (content m) = Inl e" and "channel (mgr s) = Some ch"
  shows "onMessage lib parse callback (Some m) s =
           (case lib_nack lib ch m False True (world s) of
              (r, w) \<Rightarrow>
                (r, s \<lparr> world := w,
                        trace := trace s @ [OnChannel ch (Nack (deliveryTag m) False True)] \<rparr>))
       \<and> (\<forall>w. lib_nack lib ch m False True (world s) = (Inr (), w) \<longrightarrow>
            onMessage lib parse callback (Some m) s =
              (Inr (), s \<lparr> world := w,
                           trace := trace s @ [OnChannel ch (Nack (deliveryTag m) False True)] \<rparr>))
       \<and> onMessage lib parse callback (Some m) s = onMessage lib parse callback' (Some m) s"
  using assms
  by (simp add: onMessage_def onMessage_try_def channel_nack_def io_def)

text \<open>A payload that is not JSON, on the reference broker.\<close>

theorem onMessage_malformed_requeues_witness:
  "parse_empty_object (content msg_malformed) = Inl (LibError ''SyntaxError'')
   \<and> channel (mgr connected) = Some 1
   \<and> lib_nack rabbit 1 msg_malformed False True (world connected) = (Inr (), world connected)
   \<and> onMessage rabbit parse_empty_object handler_fails (Some msg_malformed) connected
       = (Inr (), connected \<lparr> trace := [OnChannel 1 (Nack 8 False True)] \<rparr>)"
proof -
  have p: "parse_empty_object (content msg_malformed) = Inl (LibError ''SyntaxError'')"
    by (simp add: parse_empty_object_def msg_malformed_def)
  have ch: "channel (mgr connected) = Some 1"
    by (simp add: connected_eq)
  have n: "lib_nack rabbit 1 msg_malformed False True (world connected) = (Inr (), world connected)"
    by (simp add: rabbit_def connected_eq provisioned_chanOpen)
  have tag: "deliveryTag msg_malformed = 8" "trace connected = []"
    by (simp_all add: msg_malformed_def connected_eq)
  from onMessage_malformed_requeues[of parse_empty_object msg_malformed _ connected 1 rabbit
        handler_fails handler_ok, OF p ch] n
  have "onMessage rabbit parse_empty_object handler_fails (Some msg_malformed) connected
          = (Inr (), connected \<lparr> trace := [OnChannel 1 (Nack 8 False True)] \<rparr>)"
    using tag by simp
  then show ?thesis using p ch n by simp
qed

text \<open>
  The claim as it was stated, a rejection without requeue, fails on that payload: the
  one call recorded is not \<open>nack(msg, false, false)\<close>.
\<close>

theorem onMessage_malformed_not_dropped:
  "trace (snd (onMessage rabbit parse_empty_object handler_ok (Some msg_malformed) connected))
     \<noteq> [OnChannel 1 (Nack 8 False False)]
   \<and> trace (snd (onMessage rabbit parse_empty_object handler_ok (Some msg_malformed) connected))
     = [OnChannel 1 (Nack 8 False True)]"
  by (simp add: onMessage_def onMessage_try_def channel_nack_def io_def parse_empty_object_def
      msg_malformed_def connected_eq split: prod.splits)

section \<open>The publisher\<close>

text \<open>
  Claim C3. While the manager is connected, \<open>publishMessage\<close> returns \<open>true\<close> if and
  only if the message was written to the channel and the channel's buffer took it; it
  never returns \<open>false\<close>; when \<open>channel.publish\<close> returns \<open>false\<close> the call fails with
  the error 'Failed to publish message'; and when \<open>channel.publish\<close> throws, the call
  fails with what it threw.
\<close>

theorem publishMessage_true_iff_accepted:
  assumes "isConnected (mgr s)"
  shows "(fst (publishMessage lib stringify now ex rk msg opts s) = Inr True)
           = (\<exists>ch buf. channel (mgr s) = Some ch \<and> stringify msg = Inr buf
                \<and> fst (lib_publish lib ch ex rk buf (publishOptions now opts) (world s)) = Inr True)
       \<and> fst (publishMessage lib stringify now ex rk msg opts s) \<noteq> Inr False
       \<and> (\<forall>ch buf. channel (mgr s) = Some ch \<and> stringify msg = Inr buf
                \<and> fst (lib_publish lib ch ex rk buf (publishOptions now opts) (world s)) = Inr False
            \<longrightarrow> fst (publishMessage lib stringify now ex rk msg opts s) = Inl PublishRejectedError)
       \<and> (\<forall>ch buf e. channel (mgr s) = Some ch \<and> stringify msg = Inr buf
                \<and> fst (lib_publish lib ch ex rk buf (publishOptions now opts) (world s)) = Inl e
            \<longrightarrow> fst (publishMessage lib stringify now ex rk msg opts s) = Inl e)"
  using assms
  by (auto simp: publishMessage_def io_def split: sum.splits option.splits prod.splits)

text \<open>
  On the reference broker, with a write buffer that takes the frame, with one that
  does not, and on a channel that is closed.
\<close>

theorem publishMessage_true_iff_accepted_witness:
  "isConnected (mgr connected) \<and> isConnected (mgr congested)
   \<and> fst (publishMessage rabbit stringify_empty_object 1704067200000 EXCHANGES_USER_EVENTS
            ROUTING_KEYS_USER_REGISTERED (JObj []) [] connected) = Inr True
   \<and> fst (publishMessage rabbit stringify_empty_object 1704067200000 EXCHANGES_USER_EVENTS
            ROUTING_KEYS_USER_REGISTERED (JObj []) [] congested) = Inl PublishRejectedError
   \<and> isConnected (mgr channel_lost)
   \<and> fst (publishMessage rabbit stringify_empty_object 1704067200000 EXCHANGES_USER_EVENTS
            ROUTING_KEYS_USER_REGISTERED (JObj []) [] channel_lost)
       = Inl (LibError ''Channel closed'')"
proof -
  have c: "isConnected (mgr connected)" "isConnected (mgr congested)"
    "isConnected (mgr channel_lost)"
    by (simp_all add: connected_eq congested_def channel_lost_def)
  have ch: "channel (mgr connected) = Some 1" "channel (mgr congested) = Some 1"
    "channel (mgr channel_lost) = Some 1"
    by (simp_all add: connected_eq congested_def channel_lost_def)
  have buf: "stringify_empty_object (JObj []) = Inr ''{}''"
    by (simp add: stringify_empty_object_def)
  have w: "fst (lib_publish rabbit 1 ex rk b opts (world connected)) = Inr True"
          "fst (lib_publish rabbit 1 ex rk b opts (world congested)) = Inr False"
          "fst (lib_publish rabbit 1 ex rk b opts (world channel_lost))
             = Inl (LibError ''Channel closed'')" for ex rk b opts
    by (simp_all add: rabbit_def connected_eq provisioned_def congested_def channel_lost_def
        fresh_broker_def)
  from publishMessage_true_iff_accepted[OF c(1), of rabbit stringify_empty_object
         1704067200000 EXCHANGES_USER_EVENTS ROUTING_KEYS_USER_REGISTERED "JObj []" "[]"]
  have a: "fst (publishMessage rabbit stringify_empty_object 1704067200000 EXCHANGES_USER_EVENTS
            ROUTING_KEYS_USER_REGISTERED (JObj []) [] connected) = Inr True"
    using ch(1) buf w(1) by blast
  from publishMessage_true_iff_accepted[OF c(2), of rabbit stringify_empty_object
         1704067200000 EXCHANGES_USER_EVENTS ROUTING_KEYS_USER_REGISTERED "JObj []" "[]"]
  have b: "fst (publishMessage rabbit stringify_empty_object 1704067200000 EXCHANGES_USER_EVENTS
            ROUTING_KEYS_USER_REGISTERED (JObj []) [] congested) = Inl PublishRejectedError"
    using ch(2) buf w(2) by blast
  from publishMessage_true_iff_accepted[OF c(3), of rabbit stringify_empty_object
         1704067200000 EXCHANGES_USER_EVENTS ROUTING_KEYS_USER_REGISTERED "JObj []" "[]"]
  have d: "fst (publishMessage rabbit stringify_empty_object 1704067200000 EXCHANGES_USER_EVENTS
            ROUTING_KEYS_USER_REGISTERED (JObj []) [] channel_lost)
             = Inl (LibError ''Channel closed'')"
    using ch(3) buf w(3) by blast
  show ?thesis using c a b d by simp
qed

text \<open>
  Claim C4. While the manager is not connected, \<open>publishMessage\<close> and
  \<open>consumeMessages\<close> fail with the error 'Not connected to RabbitMQ' and leave the run
  as it was: no call is recorded, the world and the manager are unchanged.
\<close>

theorem not_connected_calls_fail:
  assumes "\<not> isConnected (mgr s)"
  shows "publishMessage lib stringify now ex rk msg opts s = (Inl NotConnectedError, s)
       \<and> consumeMessages lib q copts s = (Inl NotConnectedError, s)"
  using assms by (simp add: publishMessage_def consumeMessages_def)

text \<open>A manager that has never connected.\<close>

theorem not_connected_calls_fail_witness:
  "\<not> isConnected (mgr (start fresh_broker))
   \<and> publishMessage rabbit stringify_empty_object 1704067200000 EXCHANGES_USER_EVENTS
        ROUTING_KEYS_USER_REGISTERED (JObj []) [] (start fresh_broker)
       = (Inl NotConnectedError, start fresh_broker)
   \<and> consumeMessages rabbit QUEUES_EMAIL_REQUESTS [] (start fresh_broker)
       = (Inl NotConnectedError, start fresh_broker)"
proof -
  have n: "\<not> isConnected (mgr (start fresh_broker))"
    by (simp add: start_def new_RabbitMQManager_def)
  from not_connected_calls_fail[OF n] n show ?thesis by simp
qed

section \<open>Reconnecting\<close>

text \<open>
  The loop, from any count of \<open>retries\<close> and with any library: while every attempt
  fails and leaves the manager not connected, it runs out of retries, after one attempt
  per remaining retry and one wait between two attempts. \<open>I\<close> is whatever stays true of
  the run while the broker is down.
\<close>

lemma reconnect_loop_exhausts:
  assumes step: "\<And>s'. I s' \<Longrightarrow> \<not> isConnected (mgr s') \<Longrightarrow>
            (\<exists>e. fst (connect lib s') = Inl e) \<and> \<not> isConnected (mgr (snd (connect lib s')))
            \<and> I (snd (connect lib s')) \<and> I (sleep lib delay (snd (connect lib s')))"
  shows "I s \<Longrightarrow> \<not> isConnected (mgr s) \<Longrightarrow> retries < maxRetries \<Longrightarrow>
         nat (maxRetries - retries) = n \<Longrightarrow>
         fst (reconnect_loop lib maxRetries delay retries s) = Inl ReconnectExhaustedError
         \<and> (\<exists>ops. trace (snd (reconnect_loop lib maxRetries delay retries s)) = trace s @ ops
                \<and> schedule ops = retry_schedule (url (mgr s)) delay n)"
proof (induction n arbitrary: retries s)
  case 0
  then show ?case by simp
next
  case (Suc n)
  obtain r s1 where c: "connect lib s = (r, s1)" by (cases "connect lib s")
  from step[OF Suc.prems(1,2)] c obtain e where
    r: "r = Inl e" and nc: "\<not> isConnected (mgr s1)" and i1: "I s1" and i2: "I (sleep lib delay s1)"
    by auto
  from connect_effect[of lib s] c obtain ops1 where
    u1: "url (mgr s1) = url (mgr s)" and
    t1: "trace s1 = trace s @ AmqpConnect (url (mgr s)) # ops1" and sch1: "schedule ops1 = []"
    by auto
  show ?case
  proof (cases "retries + 1 < maxRetries")
    case True
    have unfold: "reconnect_loop lib maxRetries delay retries s =
                    reconnect_loop lib maxRetries delay (retries + 1) (sleep lib delay s1)"
      using Suc.prems(2,3) c r True
      by (subst reconnect_loop.simps) simp
    from Suc.prems(4) True obtain m where n: "n = Suc m" "nat (maxRetries - (retries + 1)) = n"
      by (cases n) auto
    from Suc.IH[OF i2 sleep_simps(3)[OF nc] True n(2)] obtain ops2 where
      res: "fst (reconnect_loop lib maxRetries delay (retries + 1) (sleep lib delay s1))
              = Inl ReconnectExhaustedError" and
      t2: "trace (snd (reconnect_loop lib maxRetries delay (retries + 1) (sleep lib delay s1)))
              = trace (sleep lib delay s1) @ ops2" and
      sch2: "schedule ops2 = retry_schedule (url (mgr (sleep lib delay s1))) delay n"
      by auto
    have "schedule (AmqpConnect (url (mgr s)) # ops1 @ Sleep delay # ops2)
            = retry_schedule (url (mgr s)) delay (Suc n)"
      using sch1 sch2 u1 n(1) by (simp add: schedule_def sleep_simps)
    then show ?thesis
      using unfold res t2 t1 by (simp add: sleep_simps)
  next
    case False
    with Suc.prems(3,4) have n0: "n = 0" and last: "\<not> retries + 1 < maxRetries" by auto
    have unfold: "reconnect_loop lib maxRetries delay retries s
                    = (Inl ReconnectExhaustedError, s1)"
      using Suc.prems(2,3) c r last
      by (subst reconnect_loop.simps, subst reconnect_loop.simps) simp
    show ?thesis
      using unfold t1 sch1 n0 by (simp add: schedule_def)
  qed
qed

lemma attempts_of_retry_schedule:
  "length (filter is_attempt (retry_schedule u d n)) = n"
  by (induction u d n rule: retry_schedule.induct) simp_all

lemma attempts_of_schedule: "filter is_attempt (schedule ops) = filter is_attempt ops"
  by (induction ops) (auto simp: schedule_def)

text \<open>
  A broker that holds a queue of the topology's name with another configuration
  refuses the third declaration of every attempt, and goes on holding it.
\<close>

lemma assert_queue_refused:
  "queues b n = Some (\<not> dur) \<Longrightarrow>
     broker_apply (AssertQueue n dur) b
       = (Inl (LibError ''PRECONDITION_FAILED''), b \<lparr> chanOpen := False, connOpen := False \<rparr>)"
  by simp

lemma connect_conflicting:
  assumes "holds_conflict (world s)"
  shows "fst (connect rabbit s) = Inl (LibError ''PRECONDITION_FAILED'')
       \<and> holds_conflict (world (snd (connect rabbit s)))"
  using assms
  by (simp add: connect_reachable topology_def rabbit_declare refused_def holds_conflict_def
      assert_exchange_ok assert_queue_refused free_or_upd free_or_Some deliver_keeps name_defs
      del: broker_apply.simps)

text \<open>
  Claim C5. For \<open>maxRetries > 0\<close>, when \<open>reconnect\<close> is called on a manager that is not
  connected and every attempt fails, it makes exactly \<open>maxRetries\<close> attempts, waits the
  same \<open>delay\<close> between two consecutive attempts and at no other time, and fails with
  the error 'Failed to reconnect to RabbitMQ after maximum retries'. The attempts are
  made against the reference broker: an attempt that fails there after \<open>connect\<close> has
  set \<open>isConnected\<close> fails because a declaration is refused, the connection emits, and
  the listener has cleared the flag when \<open>connect\<close> throws. \<open>I\<close> is whatever stays true
  of the run while the attempts fail. And with any library, at any turn of the loop, an
  attempt that succeeds makes the loop return \<open>true\<close> in the state that attempt left.
\<close>

theorem reconnect_exhausts:
  fixes lib :: "'w amqplib"
  assumes "0 < maxRetries" and "\<not> isConnected (mgr s)" and "I s"
    and "\<forall>s'. I s' \<and> \<not> isConnected (mgr s') \<longrightarrow>
            (\<exists>e. fst (connect rabbit s') = Inl e)
            \<and> I (snd (connect rabbit s')) \<and> I (sleep rabbit delay (snd (connect rabbit s')))"
  shows "fst (reconnect rabbit maxRetries delay s) = Inl ReconnectExhaustedError
       \<and> schedule (drop (length (trace s)) (trace (snd (reconnect rabbit maxRetries delay s))))
           = retry_schedule (url (mgr s)) delay (nat maxRetries)
       \<and> length (filter is_attempt
                  (drop (length (trace s)) (trace (snd (reconnect rabbit maxRetries delay s)))))
           = nat maxRetries
       \<and> (\<forall>retries s' ch s1. retries < maxRetries \<and> \<not> isConnected (mgr s')
              \<and> connect lib s' = (Inr ch, s1)
            \<longrightarrow> reconnect_loop lib maxRetries delay retries s' = (Inr True, s1))"
proof -
  have step: "(\<exists>e. fst (connect rabbit s') = Inl e)
            \<and> \<not> isConnected (mgr (snd (connect rabbit s')))
            \<and> I (snd (connect rabbit s')) \<and> I (sleep rabbit delay (snd (connect rabbit s')))"
    if i: "I s'" and n: "\<not> isConnected (mgr s')" for s'
  proof -
    from assms(4) i n obtain e where
      f: "fst (connect rabbit s') = Inl e" and
      k: "I (snd (connect rabbit s'))" "I (sleep rabbit delay (snd (connect rabbit s')))"
      by blast
    from connect_failure_clears_flag[OF n f] f k show ?thesis by blast
  qed
  from reconnect_loop_exhausts[of I rabbit delay s 0 maxRetries "nat maxRetries", OF step] assms(1-3)
  obtain ops where
    "fst (reconnect_loop rabbit maxRetries delay 0 s) = Inl ReconnectExhaustedError"
    "trace (snd (reconnect_loop rabbit maxRetries delay 0 s)) = trace s @ ops"
    "schedule ops = retry_schedule (url (mgr s)) delay (nat maxRetries)"
    by auto
  moreover have "\<forall>retries s' ch s1. retries < maxRetries \<and> \<not> isConnected (mgr s')
              \<and> connect lib s' = (Inr ch, s1)
            \<longrightarrow> reconnect_loop lib maxRetries delay retries s' = (Inr True, s1)"
    by (subst reconnect_loop.simps) simp
  moreover have "length (filter is_attempt ops) = nat maxRetries"
    if "schedule ops = retry_schedule (url (mgr s)) delay (nat maxRetries)" for ops
    using attempts_of_schedule[of ops] attempts_of_retry_schedule[of "url (mgr s)" delay "nat maxRetries"]
      that by simp
  ultimately show ?thesis by (simp add: reconnect_def)
qed

text \<open>
  Three retries against a broker that is not reachable, and against a reachable broker
  that holds the queue user.events as a queue that is not durable, where every attempt
  fails at the third declaration: three attempts and two waits each time. And against a
  fresh broker: the first attempt succeeds.
\<close>

theorem reconnect_exhausts_witness:
  "(0::int) < 3 \<and> \<not> isConnected (mgr unreachable) \<and> \<not> reachable (world unreachable)
   \<and> fst (reconnect rabbit 3 100 unreachable) = Inl ReconnectExhaustedError
   \<and> schedule (trace (snd (reconnect rabbit 3 100 unreachable)))
       = [AmqpConnect ''amqp://localhost'', Sleep 100, AmqpConnect ''amqp://localhost'',
          Sleep 100, AmqpConnect ''amqp://localhost'']
   \<and> length (filter is_attempt (trace (snd (reconnect rabbit 3 100 unreachable)))) = 3
   \<and> \<not> isConnected (mgr conflicting)
   \<and> fst (connect rabbit conflicting) = Inl (LibError ''PRECONDITION_FAILED'')
   \<and> fst (reconnect rabbit 3 100 conflicting) = Inl ReconnectExhaustedError
   \<and> schedule (trace (snd (reconnect rabbit 3 100 conflicting)))
       = [AmqpConnect ''amqp://localhost'', Sleep 100, AmqpConnect ''amqp://localhost'',
          Sleep 100, AmqpConnect ''amqp://localhost'']
   \<and> length (filter is_attempt (trace (snd (reconnect rabbit 3 100 conflicting)))) = 3
   \<and> fst (reconnect_loop rabbit 3 100 0 (start fresh_broker)) = Inr True"
proof -
  have u: "\<not> isConnected (mgr unreachable)" "\<not> reachable (world unreachable)"
    "trace unreachable = []" "url (mgr unreachable) = ''amqp://localhost''"
    by (simp_all add: unreachable_def start_def new_RabbitMQManager_def fresh_broker_def)
  have step: "\<forall>s'. \<not> reachable (world s') \<and> \<not> isConnected (mgr s') \<longrightarrow>
            (\<exists>e. fst (connect rabbit s') = Inl e)
            \<and> \<not> reachable (world (snd (connect rabbit s')))
            \<and> \<not> reachable (world (sleep rabbit 100 (snd (connect rabbit s'))))"
    by (simp add: connect_unreachable rabbit_sleep)
  have k: "\<not> isConnected (mgr conflicting)" "holds_conflict (world conflicting)"
    "trace conflicting = []" "url (mgr conflicting) = ''amqp://localhost''"
    by (simp_all add: conflicting_def start_def new_RabbitMQManager_def fresh_broker_def
        holds_conflict_def free_or_def)
  have kstep: "\<forall>s'. holds_conflict (world s') \<and> \<not> isConnected (mgr s') \<longrightarrow>
            (\<exists>e. fst (connect rabbit s') = Inl e)
            \<and> holds_conflict (world (snd (connect rabbit s')))
            \<and> holds_conflict (world (sleep rabbit 100 (snd (connect rabbit s'))))"
    by (simp add: connect_conflicting rabbit_sleep)
  have f: "\<not> isConnected (mgr (start fresh_broker))"
    by (simp add: start_def new_RabbitMQManager_def)
  have c: "connect rabbit (start fresh_broker)
             = (Inr (Some 1), snd (connect rabbit (start fresh_broker)))"
    using connect_fresh by (cases "connect rabbit (start fresh_broker)") simp
  have pos: "(0::int) < 3" by simp
  note run = reconnect_exhausts[of 3 unreachable "\<lambda>s. \<not> reachable (world s)" 100 rabbit,
                 OF pos u(1,2) step]
  note krun = reconnect_exhausts[of 3 conflicting "\<lambda>s. holds_conflict (world s)" 100 rabbit,
                 OF pos k(1,2) kstep]
  have r1: "fst (reconnect rabbit 3 100 unreachable) = Inl ReconnectExhaustedError"
    using run by simp
  have r2: "schedule (drop (length (trace unreachable))
                       (trace (snd (reconnect rabbit 3 100 unreachable))))
              = retry_schedule (url (mgr unreachable)) 100 (nat 3)"
    using run by simp
  have r4: "length (filter is_attempt (drop (length (trace unreachable))
                       (trace (snd (reconnect rabbit 3 100 unreachable))))) = nat 3"
    using run by simp
  have r3: "0 < (3::int) \<and> \<not> isConnected (mgr (start fresh_broker))
              \<and> connect rabbit (start fresh_broker)
                  = (Inr (Some 1), snd (connect rabbit (start fresh_broker)))
            \<longrightarrow> reconnect_loop rabbit 3 100 0 (start fresh_broker)
                  = (Inr True, snd (connect rabbit (start fresh_broker)))"
    using run by blast
  have k1: "fst (reconnect rabbit 3 100 conflicting) = Inl ReconnectExhaustedError"
    using krun by simp
  have k2: "schedule (drop (length (trace conflicting))
                       (trace (snd (reconnect rabbit 3 100 conflicting))))
              = retry_schedule (url (mgr conflicting)) 100 (nat 3)"
    using krun by simp
  have k4: "length (filter is_attempt (drop (length (trace conflicting))
                       (trace (snd (reconnect rabbit 3 100 conflicting))))) = nat 3"
    using krun by simp
  have k0: "fst (connect rabbit conflicting) = Inl (LibError ''PRECONDITION_FAILED'')"
    using connect_conflicting[OF k(2)] by simp
  from r3 f c have "fst (reconnect_loop rabbit 3 100 0 (start fresh_broker)) = Inr True"
    by simp
  then show ?thesis
    using r1 r2 r4 u k k0 k1 k2 k4 by (simp add: eval_nat_numeral)
qed

text \<open>
  Claim C10. Called on a manager that is connected, \<open>reconnect\<close> makes no connection
  attempt (it records no call at all) and fails with the error 'Failed to reconnect to
  RabbitMQ after maximum retries'.
\<close>

theorem reconnect_when_connected:
  assumes "isConnected (mgr s)"
  shows "reconnect lib maxRetries delay s = (Inl ReconnectExhaustedError, s)
       \<and> filter is_attempt (trace (snd (reconnect lib maxRetries delay s)))
           = filter is_attempt (trace s)"
  using assms by (simp add: reconnect_def reconnect_loop.simps)

text \<open>A connected manager, the default arguments.\<close>

theorem reconnect_when_connected_witness:
  "isConnected (mgr connected)
   \<and> reconnect rabbit 5 5000 connected = (Inl ReconnectExhaustedError, connected)
   \<and> filter is_attempt (trace (snd (reconnect rabbit 5 5000 connected))) = []"
proof -
  have c: "isConnected (mgr connected)" and t: "trace connected = []"
    by (simp_all add: connected_eq)
  from reconnect_when_connected[OF c, of rabbit 5 5000] c t show ?thesis by simp
qed

section \<open>The event envelope\<close>

text \<open>
  Claim C6, as the code has it. \<open>BaseEvent.fromJSON\<close> checks nothing: on any object it
  returns an event. Type, data, timestamp and version are read from the object as they
  are, \<open>undefined\<close> when the object does not have them; the correlation id is read
  from the object when it is truthy there and generated otherwise.
  \<open>EventUtils.validateEvent\<close>, applied to that event, returns \<open>true\<close> when type, data
  and timestamp are all truthy and throws 'Invalid event format' otherwise; so it
  throws when one of the three is absent, and also when one is present but falsy.
\<close>

theorem validateEvent_after_fromJSON:
  "fromJSON clk (JObj kvs) =
     Inr \<lparr> ev_type = getProp (JObj kvs) ''type'',
           ev_data = getProp (JObj kvs) ''data'',
           timestamp = getProp (JObj kvs) ''timestamp'',
           correlationId =
             (if truthy (getProp (JObj kvs) ''correlationId'')
              then getProp (JObj kvs) ''correlationId'' else JStr (generateId clk)),
           version = getProp (JObj kvs) ''version'' \<rparr>
   \<and> (\<forall>k. map_of kvs k = None \<longrightarrow> getProp (JObj kvs) k = JUndefined)
   \<and> (\<forall>k v. map_of kvs k = Some v \<longrightarrow> getProp (JObj kvs) k = v)
   \<and> (\<exists>e. fromJSON clk (JObj kvs) = Inr e
       \<and> validateEvent e =
           (if truthy (getProp (JObj kvs) ''type'') \<and> truthy (getProp (JObj kvs) ''data'')
               \<and> truthy (getProp (JObj kvs) ''timestamp'')
            then Inr True else Inl SchemaValidationError)
       \<and> (map_of kvs ''type'' = None \<or> map_of kvs ''data'' = None
            \<or> map_of kvs ''timestamp'' = None
          \<longrightarrow> validateEvent e = Inl SchemaValidationError))"
proof -
  define json where "json = JObj kvs"
  define e where
    "e = \<lparr> ev_type = getProp json ''type'', ev_data = getProp json ''data'',
           timestamp = getProp json ''timestamp'',
           correlationId =
             (if truthy (getProp json ''correlationId'')
              then getProp json ''correlationId'' else JStr (generateId clk)),
           version = getProp json ''version'' \<rparr>"
  have 1: "fromJSON clk (JObj kvs) = Inr e"
    by (simp add: fromJSON_def new_BaseEvent_def e_def json_def Let_def)
  have 2: "validateEvent e =
           (if truthy (getProp json ''type'') \<and> truthy (getProp json ''data'')
               \<and> truthy (getProp json ''timestamp'')
            then Inr True else Inl SchemaValidationError)"
    by (simp add: validateEvent_def e_def)
  have absent: "\<forall>k. map_of kvs k = None \<longrightarrow> getProp (JObj kvs) k = JUndefined"
    by simp
  have present: "\<forall>k v. map_of kvs k = Some v \<longrightarrow> getProp (JObj kvs) k = v"
    by simp
  have 3: "map_of kvs ''type'' = None \<or> map_of kvs ''data'' = None
            \<or> map_of kvs ''timestamp'' = None
          \<longrightarrow> validateEvent e = Inl SchemaValidationError"
  proof
    assume "map_of kvs ''type'' = None \<or> map_of kvs ''data'' = None
            \<or> map_of kvs ''timestamp'' = None"
    then have "\<not> truthy (getProp json ''type'') \<or> \<not> truthy (getProp json ''data'')
            \<or> \<not> truthy (getProp json ''timestamp'')"
      unfolding json_def using absent by (elim disjE) simp_all
    then show "validateEvent e = Inl SchemaValidationError"
      unfolding 2 by (elim disjE) simp_all
  qed
  have 4: "\<exists>e. fromJSON clk (JObj kvs) = Inr e
       \<and> validateEvent e =
           (if truthy (getProp (JObj kvs) ''type'') \<and> truthy (getProp (JObj kvs) ''data'')
               \<and> truthy (getProp (JObj kvs) ''timestamp'')
            then Inr True else Inl SchemaValidationError)
       \<and> (map_of kvs ''type'' = None \<or> map_of kvs ''data'' = None
            \<or> map_of kvs ''timestamp'' = None
          \<longrightarrow> validateEvent e = Inl SchemaValidationError)"
    using 1 2 3 unfolding json_def by (intro exI[of _ e] conjI)
  have 0: "fromJSON clk (JObj kvs) =
     Inr \<lparr> ev_type = getProp (JObj kvs) ''type'',
           ev_data = getProp (JObj kvs) ''data'',
           timestamp = getProp (JObj kvs) ''timestamp'',
           correlationId =
             (if truthy (getProp (JObj kvs) ''correlationId'')
              then getProp (JObj kvs) ''correlationId'' else JStr (generateId clk)),
           version = getProp (JObj kvs) ''version'' \<rparr>"
    using 1 unfolding e_def json_def .
  show ?thesis
    using 0 absent present 4 by (intro conjI)
qed

text \<open>
  A payload without timestamp and without correlation id: the event has the type and
  the data of the payload, no timestamp, no version and a generated correlation id, and
  it does not validate.
\<close>

theorem validateEvent_after_fromJSON_witness:
  "map_of payload_without_timestamp ''timestamp'' = None
   \<and> fromJSON clock0 (JObj payload_without_timestamp) =
       Inr \<lparr> ev_type = JStr ''user.registered'', ev_data = JObj [], timestamp = JUndefined,
             correlationId = JStr ''1704067200000-4fzyo82mv'', version = JUndefined \<rparr>
   \<and> (\<exists>e. fromJSON clock0 (JObj payload_without_timestamp) = Inr e
          \<and> validateEvent e = Inl SchemaValidationError)"
proof -
  have n: "map_of payload_without_timestamp ''timestamp'' = None"
    by (simp add: payload_without_timestamp_def)
  have g: "getProp (JObj payload_without_timestamp) ''type'' = JStr ''user.registered''"
    "getProp (JObj payload_without_timestamp) ''data'' = JObj []"
    "getProp (JObj payload_without_timestamp) ''timestamp'' = JUndefined"
    "getProp (JObj payload_without_timestamp) ''correlationId'' = JUndefined"
    "getProp (JObj payload_without_timestamp) ''version'' = JUndefined"
    "generateId clock0 = ''1704067200000-4fzyo82mv''"
    by (simp_all add: payload_without_timestamp_def generateId_def clock0_def)
  note run = validateEvent_after_fromJSON[of clock0 payload_without_timestamp]
  have 0: "fromJSON clock0 (JObj payload_without_timestamp) =
       Inr \<lparr> ev_type = JStr ''user.registered'', ev_data = JObj [], timestamp = JUndefined,
             correlationId = JStr ''1704067200000-4fzyo82mv'', version = JUndefined \<rparr>"
    using run unfolding g by simp
  from run obtain e where 1: "fromJSON clock0 (JObj payload_without_timestamp) = Inr e"
    and 3: "map_of payload_without_timestamp ''type'' = None
            \<or> map_of payload_without_timestamp ''data'' = None
            \<or> map_of payload_without_timestamp ''timestamp'' = None
          \<longrightarrow> validateEvent e = Inl SchemaValidationError"
    by (elim exE conjE)
  from 3 n have "validateEvent e = Inl SchemaValidationError" by (elim impE) (intro disjI2)
  with 1 have "\<exists>e. fromJSON clock0 (JObj payload_without_timestamp) = Inr e
          \<and> validateEvent e = Inl SchemaValidationError"
    by (intro conjI exI[of _ e])
  with n 0 show ?thesis by (intro conjI)
qed

text \<open>
  The claim as it was stated fails twice: \<open>fromJSON\<close> returns an event for the empty
  object, where all three fields are absent; and validation fails for a payload that
  has all three fields, with the empty string as its type.
\<close>

theorem fromJSON_does_not_validate:
  "fromJSON clock0 (JObj []) =
     Inr \<lparr> ev_type = JUndefined, ev_data = JUndefined, timestamp = JUndefined,
           correlationId = JStr ''1704067200000-4fzyo82mv'', version = JUndefined \<rparr>
   \<and> fromJSON clock0 (JObj [(''type'', JStr ''''), (''data'', JObj []),
                            (''timestamp'', JStr ''2024-01-01T00:00:00.000Z'')]) =
     Inr \<lparr> ev_type = JStr '''', ev_data = JObj [], timestamp = JStr ''2024-01-01T00:00:00.000Z'',
           correlationId = JStr ''1704067200000-4fzyo82mv'', version = JUndefined \<rparr>
   \<and> validateEvent \<lparr> ev_type = JStr '''', ev_data = JObj [],
           timestamp = JStr ''2024-01-01T00:00:00.000Z'',
           correlationId = JStr ''1704067200000-4fzyo82mv'', version = JUndefined \<rparr>
       = Inl SchemaValidationError"
  by (simp add: fromJSON_def validateEvent_def new_BaseEvent_def generateId_def clock0_def Let_def)

text \<open>
  Claim C7. An envelope created with a non-empty correlation id comes back from
  \<open>toJSON\<close> followed by \<open>fromJSON\<close> equal to itself: type, data, timestamp,
  correlation id and version are those of the original, whatever the clock says when it
  is read back; the correlation id is the one it was created with.
\<close>

theorem envelope_round_trip:
  assumes "cid \<noteq> []"
  shows "fromJSON clk' (toJSON (new_BaseEvent clk ty d (JStr cid)))
           = Inr (new_BaseEvent clk ty d (JStr cid))
       \<and> correlationId (new_BaseEvent clk ty d (JStr cid)) = JStr cid"
  using assms by (simp add: fromJSON_def toJSON_def new_BaseEvent_def Let_def)

text \<open>The correlation id "abc-123", read back five seconds later.\<close>

theorem envelope_round_trip_witness:
  "''abc-123'' \<noteq> []
   \<and> fromJSON (clock0 \<lparr> nowISO := ''2024-01-01T00:00:05.000Z'' \<rparr>)
        (toJSON (new_BaseEvent clock0 (JStr ''user.registered'') (JObj [(''userId'', JNum 1)])
                   (JStr ''abc-123'')))
       = Inr (new_BaseEvent clock0 (JStr ''user.registered'') (JObj [(''userId'', JNum 1)])
                (JStr ''abc-123''))
   \<and> correlationId (new_BaseEvent clock0 (JStr ''user.registered'') (JObj [(''userId'', JNum 1)])
                      (JStr ''abc-123'')) = JStr ''abc-123''"
proof -
  have n: "''abc-123'' \<noteq> []" by simp
  from envelope_round_trip[OF n] n show ?thesis by blast
qed

section \<open>Closing\<close>

text \<open>
  \<open>close\<close> never throws; and when the channel and the connection close without error
  it closes the channel, then the connection, and the flag is cleared, by the last
  statement if no listener has cleared it before.
\<close>

lemma close_never_raises: "fst (close lib s) = Inr ()"
  by (simp add: close_def split: prod.splits)

lemma close_without_error:
  assumes "channel (mgr s) = Some ch" and "connection (mgr s) = Some c"
    and "lib_closeChannel lib ch (world s) = (Inr (), w1)"
    and "lib_closeConnection lib c w1 = (Inr (), w2)"
  shows "close lib s =
           (Inr (), s \<lparr> world := w2,
                        trace := trace s @ [OnChannel ch CloseChannel, CloseConnection c],
                        mgr := (mgr s) \<lparr> isConnected := False \<rparr> \<rparr>)"
  using assms
  by (simp add: close_def close_try_def await_eq deliver_keeps deliver_def on_connection_event_def)

text \<open>
  Claim C8, where the code departs from it. When closing the channel raises, \<open>close\<close>
  returns normally, having made that one call: the connection is not closed and the
  last statement, \<open>isConnected = false\<close>, is not reached. The flag is what it was
  before, unless a connection the manager listens to has emitted while the call was
  pending. When the channel closes and closing the connection raises, \<open>close\<close> returns
  normally as well, and again the flag is what it was before unless a listener has
  cleared it.
\<close>

theorem close_keeps_flag_on_error:
  "(channel (mgr s) = Some ch \<and> lib_closeChannel lib ch (world s) = (Inl e, w)
      \<longrightarrow> close lib s
            = (Inr (), deliver (lib_emitted lib (OnChannel ch CloseChannel) (world s))
                         (s \<lparr> world := w, trace := trace s @ [OnChannel ch CloseChannel] \<rparr>))
          \<and> isConnected (mgr (snd (close lib s)))
              = (isConnected (mgr s)
                 \<and> \<not> list_ex (\<lambda>c. c \<in> set (listening s))
                       (lib_emitted lib (OnChannel ch CloseChannel) (world s))))
   \<and> (channel (mgr s') = Some ch' \<and> connection (mgr s') = Some c'
        \<and> lib_closeChannel lib' ch' (world s') = (Inr (), w1)
        \<and> lib_closeConnection lib' c' w1 = (Inl e', w2)
      \<longrightarrow> close lib' s'
            = (Inr (), deliver (lib_emitted lib' (OnChannel ch' CloseChannel) (world s')
                                 @ lib_emitted lib' (CloseConnection c') w1)
                         (s' \<lparr> world := w2,
                               trace := trace s' @ [OnChannel ch' CloseChannel, CloseConnection c'] \<rparr>))
          \<and> isConnected (mgr (snd (close lib' s')))
              = (isConnected (mgr s')
                 \<and> \<not> list_ex (\<lambda>c. c \<in> set (listening s'))
                       (lib_emitted lib' (OnChannel ch' CloseChannel) (world s')
                        @ lib_emitted lib' (CloseConnection c') w1)))"
proof -
  have first: "close lib s
            = (Inr (), deliver (lib_emitted lib (OnChannel ch CloseChannel) (world s))
                         (s \<lparr> world := w, trace := trace s @ [OnChannel ch CloseChannel] \<rparr>))"
    if "channel (mgr s) = Some ch" "lib_closeChannel lib ch (world s) = (Inl e, w)"
    using that by (simp add: close_def close_try_def await_eq)
  have second: "close lib' s'
            = (Inr (), deliver (lib_emitted lib' (OnChannel ch' CloseChannel) (world s')
                                 @ lib_emitted lib' (CloseConnection c') w1)
                         (s' \<lparr> world := w2,
                               trace := trace s' @ [OnChannel ch' CloseChannel, CloseConnection c'] \<rparr>))"
    if "channel (mgr s') = Some ch'" "connection (mgr s') = Some c'"
      "lib_closeChannel lib' ch' (world s') = (Inr (), w1)"
      "lib_closeConnection lib' c' w1 = (Inl e', w2)"
    using that
    by (simp add: close_def close_try_def await_eq deliver_keeps)
       (simp add: deliver_def on_connection_event_def)
  show ?thesis
  proof (intro conjI impI)
    assume h: "channel (mgr s) = Some ch \<and> lib_closeChannel lib ch (world s) = (Inl e, w)"
    show "close lib s
            = (Inr (), deliver (lib_emitted lib (OnChannel ch CloseChannel) (world s))
                         (s \<lparr> world := w, trace := trace s @ [OnChannel ch CloseChannel] \<rparr>))"
      using h first by blast
    then show "isConnected (mgr (snd (close lib s)))
              = (isConnected (mgr s)
                 \<and> \<not> list_ex (\<lambda>c. c \<in> set (listening s))
                       (lib_emitted lib (OnChannel ch CloseChannel) (world s)))"
      by (simp add: deliver_flag)
  next
    assume h: "channel (mgr s') = Some ch' \<and> connection (mgr s') = Some c'
        \<and> lib_closeChannel lib' ch' (world s') = (Inr (), w1)
        \<and> lib_closeConnection lib' c' w1 = (Inl e', w2)"
    show "close lib' s'
            = (Inr (), deliver (lib_emitted lib' (OnChannel ch' CloseChannel) (world s')
                                 @ lib_emitted lib' (CloseConnection c') w1)
                         (s' \<lparr> world := w2,
                               trace := trace s' @ [OnChannel ch' CloseChannel, CloseConnection c'] \<rparr>))"
      using h second by blast
    then show "isConnected (mgr (snd (close lib' s')))
              = (isConnected (mgr s')
                 \<and> \<not> list_ex (\<lambda>c. c \<in> set (listening s'))
                       (lib_emitted lib' (OnChannel ch' CloseChannel) (world s')
                        @ lib_emitted lib' (CloseConnection c') w1))"
      by (simp add: deliver_flag)
  qed
qed

text \<open>
  A connected manager whose channel a caller has closed: \<open>connect\<close> returns the
  channel, and the caller has called \<open>close\<close> on it. No connection emits; after \<open>close\<close>
  the manager still says it is connected and the connection is still open. And a
  manager in a state made to take the second path, where the channel closes and the
  connection is closed already: the manager still says it is connected.
\<close>

theorem close_keeps_flag_on_error_witness:
  "channel (mgr channel_lost) = Some 1
   \<and> lib_closeChannel rabbit 1 (world channel_lost)
       = (Inl (LibError ''Channel closed''), world channel_lost)
   \<and> lib_emitted rabbit (OnChannel 1 CloseChannel) (world channel_lost) = []
   \<and> close rabbit channel_lost = (Inr (), channel_lost \<lparr> trace := [OnChannel 1 CloseChannel] \<rparr>)
   \<and> isConnected (mgr (snd (close rabbit channel_lost)))
   \<and> connOpen (world (snd (close rabbit channel_lost)))
   \<and> channel (mgr connection_lost) = Some 1 \<and> connection (mgr connection_lost) = Some 1
   \<and> lib_closeChannel rabbit 1 (world connection_lost)
       = (Inr (), (world connection_lost) \<lparr> chanOpen := False \<rparr>)
   \<and> lib_closeConnection rabbit 1 ((world connection_lost) \<lparr> chanOpen := False \<rparr>)
       = (Inl (LibError ''Connection closed''), (world connection_lost) \<lparr> chanOpen := False \<rparr>)
   \<and> isConnected (mgr (snd (close rabbit connection_lost)))"
proof -
  have ch: "channel (mgr channel_lost) = Some 1"
    by (simp add: channel_lost_def connected_eq)
  have rej: "lib_closeChannel rabbit 1 (world channel_lost)
               = (Inl (LibError ''Channel closed''), world channel_lost)"
    by (simp add: rabbit_def channel_lost_def connected_eq)
  have em: "lib_emitted rabbit (OnChannel 1 CloseChannel) (world channel_lost) = []"
    "lib_emitted rabbit (OnChannel 1 CloseChannel) (world connection_lost) = []"
    "lib_emitted rabbit (CloseConnection 1) ((world connection_lost) \<lparr> chanOpen := False \<rparr>) = []"
    by (simp_all add: rabbit_def connection_lost_def connected_eq)
  have h2: "channel (mgr connection_lost) = Some 1" "connection (mgr connection_lost) = Some 1"
    "isConnected (mgr connection_lost)"
    by (simp_all add: connection_lost_def connected_eq)
  have ok2: "lib_closeChannel rabbit 1 (world connection_lost)
               = (Inr (), (world connection_lost) \<lparr> chanOpen := False \<rparr>)"
    by (simp add: rabbit_def connection_lost_def connected_eq provisioned_chanOpen)
  have rej2: "lib_closeConnection rabbit 1 ((world connection_lost) \<lparr> chanOpen := False \<rparr>)
       = (Inl (LibError ''Connection closed''), (world connection_lost) \<lparr> chanOpen := False \<rparr>)"
    by (simp add: rabbit_def connection_lost_def connected_eq)
  note run = close_keeps_flag_on_error[of channel_lost 1 rabbit "LibError ''Channel closed''"
      "world channel_lost" connection_lost 1 1 rabbit "(world connection_lost) \<lparr> chanOpen := False \<rparr>"
      "LibError ''Connection closed''" "(world connection_lost) \<lparr> chanOpen := False \<rparr>"]
  from run ch rej have a: "close rabbit channel_lost
            = (Inr (), deliver (lib_emitted rabbit (OnChannel 1 CloseChannel) (world channel_lost))
                 (channel_lost \<lparr> world := world channel_lost,
                    trace := trace channel_lost @ [OnChannel 1 CloseChannel] \<rparr>))"
    by blast
  from run h2 ok2 rej2 have b: "isConnected (mgr (snd (close rabbit connection_lost)))
          = (isConnected (mgr connection_lost)
             \<and> \<not> list_ex (\<lambda>c. c \<in> set (listening connection_lost))
                   (lib_emitted rabbit (OnChannel 1 CloseChannel) (world connection_lost)
                    @ lib_emitted rabbit (CloseConnection 1)
                        ((world connection_lost) \<lparr> chanOpen := False \<rparr>)))"
    by blast
  have st: "isConnected (mgr channel_lost)" "connOpen (world channel_lost)"
    "trace channel_lost = []"
    by (simp_all add: channel_lost_def connected_eq provisioned_def fresh_broker_def)
  show ?thesis
    unfolding a b em using ch rej h2 ok2 rej2 st by (simp add: deliver_nothing)
qed

section \<open>The topology\<close>

text \<open>
  Claim C9. The topology lists the exchanges, all topic and durable, then the queues,
  all durable, then the bindings. On the reference broker, with an open channel and no
  conflicting exchange or queue, a call of \<open>setupExchangesAndQueues\<close> succeeds, makes
  these declarations in this order and leaves the broker provisioned; \<open>n + 1\<close> calls in
  a row all succeed, make the same declarations each time and leave the broker as the
  first call left it. And with any library: the declarations a call makes are the first
  \<open>k\<close> of the topology, in its order, and all of them when the call succeeds.
\<close>

theorem setupExchangesAndQueues_idempotent:
  assumes "channel (mgr s) = Some ch" and "chanOpen (world s)" and "no_conflict (world s)"
  shows "sorted (map decl_rank topology) \<and> list_all durable_topic topology
       \<and> setupExchangesAndQueues rabbit s
           = (Inr (), s \<lparr> world := provisioned (world s), trace := trace s @ topology_calls ch \<rparr>)
       \<and> setup_times rabbit (Suc n) s
           = (Inr (), s \<lparr> world := provisioned (world s),
                           trace := trace s @ concat (replicate (Suc n) (topology_calls ch)) \<rparr>)
       \<and> provisioned (provisioned (world s)) = provisioned (world s)
       \<and> (\<forall>lib s'. channel (mgr s') = Some ch
            \<longrightarrow> (\<exists>k. trace (snd (setupExchangesAndQueues lib s'))
                       = trace s' @ take k (topology_calls ch))
              \<and> (fst (setupExchangesAndQueues lib s') = Inr ()
                   \<longrightarrow> trace (snd (setupExchangesAndQueues lib s'))
                         = trace s' @ topology_calls ch))"
proof -
  have order: "sorted (map decl_rank topology)" "list_all durable_topic topology"
    by (simp_all add: topology_def)
  have any: "\<forall>lib s'. channel (mgr s') = Some ch
            \<longrightarrow> (\<exists>k. trace (snd (setupExchangesAndQueues lib s'))
                       = trace s' @ take k (topology_calls ch))
              \<and> (fst (setupExchangesAndQueues lib s') = Inr ()
                   \<longrightarrow> trace (snd (setupExchangesAndQueues lib s'))
                         = trace s' @ topology_calls ch)"
    by (auto simp: setupExchangesAndQueues_def topology_calls_def declareAll_success
        declareAll_prefix)
  show ?thesis
    using order any setup_provisions[OF assms] setup_times_provisions[OF assms, of n]
      provisioned_again[of "world s"]
    by (intro conjI)
qed

text \<open>
  Three more calls in a row after \<open>connect\<close> has declared the topology: none fails,
  each makes the seven declarations, and the broker stays as \<open>connect\<close> left it.
\<close>

theorem setupExchangesAndQueues_idempotent_witness:
  "channel (mgr connected) = Some 1 \<and> chanOpen (world connected) \<and> no_conflict (world connected)
   \<and> fst (setupExchangesAndQueues rabbit connected) = Inr ()
   \<and> fst (setup_times rabbit (Suc 2) connected) = Inr ()
   \<and> world (snd (setup_times rabbit (Suc 2) connected))
       = world (snd (setupExchangesAndQueues rabbit connected))
   \<and> world (snd (setup_times rabbit (Suc 2) connected)) = world connected
   \<and> trace (snd (setup_times rabbit (Suc 2) connected))
       = topology_calls 1 @ topology_calls 1 @ topology_calls 1
   \<and> trace (snd (setupExchangesAndQueues rabbit connected)) = topology_calls 1"
proof -
  have h: "channel (mgr connected) = Some 1" "chanOpen (world connected)"
          "no_conflict (world connected)"
    by (simp_all add: connected_eq provisioned_chanOpen provisioned_no_conflict)
  have t: "trace connected = []" "provisioned (world connected) = world connected"
    by (simp_all add: connected_eq provisioned_again)
  note run = setupExchangesAndQueues_idempotent[OF h, of 2]
  have a: "setupExchangesAndQueues rabbit connected
             = (Inr (), connected \<lparr> world := provisioned (world connected),
                                   trace := trace connected @ topology_calls 1 \<rparr>)"
    using run by (elim conjE)
  have b: "setup_times rabbit (Suc 2) connected
             = (Inr (), connected \<lparr> world := provisioned (world connected),
                   trace := trace connected @ concat (replicate (Suc 2) (topology_calls 1)) \<rparr>)"
    using run by (elim conjE)
  show ?thesis
    unfolding a b using h t by (simp add: eval_nat_numeral)
qed

end
